theory Spec2Isabelle
  imports Complex_Main "HOL-Library.Sublist"
begin

section \<open>JavaScript values, errors and the environment\<close>

text \<open>
  The embedding follows \<^verbatim>\<open>packages/core/src/vectordb/qdrant-vectordb.ts\<close> and the
  \<^verbatim>\<open>BM25Tokenizer\<close> class that follows it in the same source file.

  An \<^verbatim>\<open>Error\<close> object is its message. A rejected promise or a \<^verbatim>\<open>throw\<close> is the
  left injection of a sum. \<^verbatim>\<open>withRetry\<close> ends in \<^verbatim>\<open>throw lastError!\<close>, which throws
  \<^verbatim>\<open>undefined\<close> when the loop body never ran, hence the second constructor of
  \<open>thrown\<close>.
\<close>

datatype js_error = Error (message: string)

datatype thrown = Thrown js_error | ThrownUndefined

text \<open>\<^verbatim>\<open>String.prototype.includes\<close>: a contiguous, case-sensitive occurrence.\<close>

fun str_includes :: "string \<Rightarrow> string \<Rightarrow> bool" where
  "str_includes [] sub = (sub = [])"
| "str_includes (c # cs) sub = (prefix sub (c # cs) \<or> str_includes cs sub)"

text \<open>
  \<^verbatim>\<open>a || b\<close> on an optional number: \<^verbatim>\<open>undefined\<close> and \<^verbatim>\<open>0\<close> are falsy. On an
  optional boolean, \<^verbatim>\<open>a || false\<close>.
\<close>

definition num_or :: "'a::zero option \<Rightarrow> 'a \<Rightarrow> 'a" where
  "num_or a b = (case a of None \<Rightarrow> b | Some v \<Rightarrow> if v = 0 then b else v)"

definition bool_or_false :: "bool option \<Rightarrow> bool" where
  "bool_or_false a = (case a of None \<Rightarrow> False | Some v \<Rightarrow> v)"

text \<open>\<^verbatim>\<open>a ?? b\<close> only replaces \<^verbatim>\<open>undefined\<close> and \<^verbatim>\<open>null\<close>.\<close>

definition nullish_or :: "'a option \<Rightarrow> 'a \<Rightarrow> 'a" where
  "nullish_or a b = (case a of None \<Rightarrow> b | Some v \<Rightarrow> v)"

text \<open>A string is truthy when it is present and not empty.\<close>

definition truthy_str :: "string option \<Rightarrow> bool" where
  "truthy_str s = (case s of None \<Rightarrow> False | Some v \<Rightarrow> v \<noteq> [])"

subsection \<open>Insertion-ordered maps\<close>

text \<open>
  A JavaScript \<^verbatim>\<open>Map\<close> (and the own string keys of an object) keeps its entries in
  insertion order; \<^verbatim>\<open>set\<close> on a key already present replaces the value where it stands.
\<close>

fun map_has :: "('k \<times> 'v) list \<Rightarrow> 'k \<Rightarrow> bool" where
  "map_has [] k = False"
| "map_has ((k', v) # m) k = (k' = k \<or> map_has m k)"

fun map_get :: "('k \<times> 'v) list \<Rightarrow> 'k \<Rightarrow> 'v option" where
  "map_get [] k = None"
| "map_get ((k', v) # m) k = (if k' = k then Some v else map_get m k)"

fun map_set :: "('k \<times> 'v) list \<Rightarrow> 'k \<Rightarrow> 'v \<Rightarrow> ('k \<times> 'v) list" where
  "map_set [] k v = [(k, v)]"
| "map_set ((k', v') # m) k v = (if k' = k then (k, v) # m else (k', v') # map_set m k v)"

fun map_delete :: "('k \<times> 'v) list \<Rightarrow> 'k \<Rightarrow> ('k \<times> 'v) list" where
  "map_delete [] k = []"
| "map_delete ((k', v') # m) k = (if k' = k then m else (k', v') # map_delete m k)"

text \<open>\<^verbatim>\<open>new Map(entries)\<close> and \<^verbatim>\<open>Object.fromEntries(entries)\<close> set the entries in turn.\<close>

definition from_entries :: "('k \<times> 'v) list \<Rightarrow> ('k \<times> 'v) list" where
  "from_entries es = foldl (\<lambda>m (k, v). map_set m k v) [] es"

subsection \<open>The world outside the process\<close>

text \<open>
  The remote service is reached through the client library only. Every call is appended
  to \<open>remote_log\<close>; what the service answers is part of the environment \<open>env\<close> below, a
  function of the calls made so far, so that a theorem about every environment covers
  every sequence of answers, failures included.
\<close>

record hnsw_config =
  m :: int
  ef_construct :: int
  full_scan_threshold :: int
  on_disk :: bool

datatype quantization_config =
  Scalar string real bool   \<comment> \<open>\<^verbatim>\<open>{scalar: {type, quantile, always_ram}}\<close>\<close>
| Binary bool               \<comment> \<open>\<^verbatim>\<open>{binary: {always_ram}}\<close>\<close>

record vector_config =
  size :: int
  distance :: string
  hnsw_config :: "hnsw_config option"
  quantization_config :: "quantization_config option"

record sparse_vector_config =
  modifier :: string
  index_on_disk :: bool
  index_datatype :: "string option"

text \<open>
  \<^verbatim>\<open>vectors\<close> is one anonymous vector space or an object of named ones;
  \<^verbatim>\<open>sparse_vectors\<close> is an object of named sparse spaces, absent for a dense collection.
\<close>

datatype vectors_config = Single vector_config | Named "(string \<times> vector_config) list"

record collection_config =
  vectors :: vectors_config
  sparse_vectors :: "(string \<times> sparse_vector_config) list option"
  shard_number :: int
  replication_factor :: int

text \<open>
  What \<^verbatim>\<open>getCollection\<close> answers, as far as the code reads it: the keys of
  \<^verbatim>\<open>config.params.sparse_vectors\<close> and of \<^verbatim>\<open>config.sparse_vectors\<close> (each absent or an
  object), and \<^verbatim>\<open>points_count\<close>.
\<close>

record collection_info =
  params_sparse_vectors :: "string list option"
  config_sparse_vectors :: "string list option"
  points_count :: int

datatype jsval = JStr string | JNum int | JOther string

text \<open>
  A document's \<^verbatim>\<open>vector\<close> is declared \<^verbatim>\<open>number[]\<close>, but the code tests
  \<^verbatim>\<open>Array.isArray\<close> at run time, so a value that is no array is an input too.
\<close>

datatype doc_vector = NotArray | Arr "real list"

record vector_document =
  doc_id :: string
  doc_vector :: doc_vector
  doc_content :: string
  doc_relativePath :: string
  doc_startLine :: int
  doc_endLine :: int
  doc_fileExtension :: string
  doc_metadata :: "(string \<times> jsval) list"

record sparse_vector =
  indices :: "int list"
  "values" :: "int list"

record hybrid_point =
  pt_id :: string
  pt_dense :: "real list"
  pt_sparse :: sparse_vector
  pt_payload :: "(string \<times> jsval) list"

text \<open>The upsert answer: \<^verbatim>\<open>result\<close> may be missing; otherwise the code reads \<^verbatim>\<open>status\<close>.\<close>

type_synonym upsert_result = "string option"

text \<open>
  A filter expression is passed on only when it is truthy: an object always is, a string
  when it is not empty.
\<close>

datatype filter_expr = FilterObject string | FilterString string

fun truthy_filter :: "filter_expr option \<Rightarrow> bool" where
  "truthy_filter None = False"
| "truthy_filter (Some (FilterObject _)) = True"
| "truthy_filter (Some (FilterString s)) = (s \<noteq> [])"

datatype search_vector = PlainVector "real list" | NamedVector string "real list"

record search_request =
  sr_vector :: search_vector
  sr_limit :: int
  sr_with_payload :: bool
  sr_filter :: "filter_expr option"

datatype prefetch_query = DenseQuery "real list" | SparseQuery sparse_vector

record prefetch =
  pf_prefetch :: "unit list"
  pf_query :: prefetch_query
  pf_using :: string
  pf_limit :: int
  pf_with_payload :: bool

record query_request =
  qr_prefetch :: "prefetch list"
  qr_fusion :: string
  qr_limit :: int
  qr_with_payload :: bool
  qr_filter :: "filter_expr option"

record scored_point =
  sp_id :: string
  sp_payload :: "(string \<times> jsval) list option"
  sp_score :: "real option"

text \<open>\<^verbatim>\<open>client.query\<close> answers an array of points or an object with optional \<^verbatim>\<open>points\<close>.\<close>

datatype query_response = PointArray "scored_point list" | PointsObject "scored_point list option"

datatype remote_call =
  CreateCollection string collection_config
| GetCollection string
| Upsert string "hybrid_point list"
| Search string search_request
| Query string query_request

subsection \<open>Files, tokens and the environment\<close>

text \<open>
  A vocabulary file is text. Reading it gives text that \<^verbatim>\<open>JSON.parse\<close> rejects
  (\<open>NotJson\<close>) or the parsed document, of which the code reads \<^verbatim>\<open>vocabulary\<close> (an
  object of numbers, or missing) and \<^verbatim>\<open>nextIndex\<close> (a number, or missing).
  \<^verbatim>\<open>JSON.stringify\<close> followed by \<^verbatim>\<open>JSON.parse\<close> is taken to return the document it was
  given, so a written snapshot is stored as the document itself.
\<close>

record vocab_json =
  j_vocabulary :: "(string \<times> int) list option"
  j_nextIndex :: "int option"
  j_timestamp :: "string option"

datatype file_content = NotJson | JsonDoc vocab_json

datatype fs_op = ReadFile string | WriteFile string | MkDir string

datatype log_entry = Warn | ErrorLog

text \<open>A token of the natural-language library: its type, its text and its normal form.\<close>

record nlp_token =
  tk_type :: string
  tk_out :: string
  tk_normal :: string

text \<open>
  \<open>env\<close> is everything the code consumes and does not own: the answers of the remote
  service (by the calls made so far), the natural-language library, which file-system
  operations fail, the home directory and the clock.
\<close>

record env =
  remote_getCollection :: "remote_call list \<Rightarrow> string \<Rightarrow> js_error + collection_info"
  remote_createCollection :: "remote_call list \<Rightarrow> string \<Rightarrow> collection_config \<Rightarrow> js_error + bool"
  remote_upsert :: "remote_call list \<Rightarrow> string \<Rightarrow> hybrid_point list \<Rightarrow> js_error + upsert_result"
  remote_search :: "remote_call list \<Rightarrow> string \<Rightarrow> search_request \<Rightarrow> js_error + scored_point list"
  remote_query :: "remote_call list \<Rightarrow> string \<Rightarrow> query_request \<Rightarrow> js_error + query_response"
  readDoc :: "string \<Rightarrow> nlp_token list"
  fs_fails :: "fs_op \<Rightarrow> bool"
  homedir :: string
  path_join :: "string list \<Rightarrow> string"
  now_iso :: string

text \<open>
  \<open>world\<close> is everything the code changes outside its own objects: the calls sent to
  the service, the timer delays awaited, what went to \<^verbatim>\<open>console.warn\<close> and
  \<^verbatim>\<open>console.error\<close> (the progress notices of \<^verbatim>\<open>console.log\<close> are left out), the files and
  directories on disk, and the texts handed to the natural-language library.
\<close>

record world =
  remote_log :: "remote_call list"
  sleeps :: "int list"
  console :: "log_entry list"
  files :: "string \<Rightarrow> file_content option"
  dirs :: "string list"
  nlp_calls :: "string list"

section \<open>BM25Tokenizer\<close>

record bm25_tokenizer =
  vocabulary :: "(string \<times> int) list"
  nextIndex :: int
  vocabularyPath :: "string option"

text \<open>
  \<^verbatim>\<open>tokenize\<close>: the word tokens of at least two characters, in their normal form. The
  call of \<^verbatim>\<open>readDoc\<close> is recorded.
\<close>

definition tokenize :: "env \<Rightarrow> string \<Rightarrow> world \<Rightarrow> string list \<times> world" where
  "tokenize E text w =
     (map tk_normal (filter (\<lambda>t. tk_type t = ''word'' \<and> length (tk_out t) \<ge> 2) (readDoc E text)),
      w\<lparr>nlp_calls := nlp_calls w @ [text]\<rparr>)"

text \<open>
  \<^verbatim>\<open>String.prototype.trim\<close>. A character stands for a code unit below 256; the white
  space of JavaScript in that range is tab, line feed, vertical tab, form feed, carriage
  return, space and the no-break space.
\<close>

definition is_ws :: "char \<Rightarrow> bool" where
  "is_ws c = (c \<in> set [CHR 0x09, CHR 0x0A, CHR 0x0B, CHR 0x0C, CHR 0x0D, CHR '' '', CHR 0xA0])"

definition trim :: "string \<Rightarrow> string" where
  "trim s = rev (dropWhile is_ws (rev (dropWhile is_ws s)))"

text \<open>The first loop: \<^verbatim>\<open>termFreqs.set(token, (termFreqs.get(token) || 0) + 1)\<close>.\<close>

definition count_term :: "(string \<times> int) list \<Rightarrow> string \<Rightarrow> (string \<times> int) list" where
  "count_term termFreqs token = map_set termFreqs token (num_or (map_get termFreqs token) 0 + 1)"

definition term_freqs :: "string list \<Rightarrow> (string \<times> int) list" where
  "term_freqs tokens = foldl count_term [] tokens"

text \<open>
  The second loop, over the entries of \<^verbatim>\<open>termFreqs\<close> in their order. \<^verbatim>\<open>has\<close> followed by
  \<^verbatim>\<open>get\<close> is one lookup here: a word not in the vocabulary is set to \<^verbatim>\<open>nextIndex++\<close> and
  that value is what \<^verbatim>\<open>get\<close> then returns.
\<close>

fun assign_indices ::
  "(string \<times> int) list \<Rightarrow> bm25_tokenizer \<Rightarrow> int list \<Rightarrow> int list \<Rightarrow> int list \<times> int list \<times> bm25_tokenizer"
where
  "assign_indices [] tk is vs = (is, vs, tk)"
| "assign_indices ((word, tf) # rest) tk is vs =
     (case map_get (vocabulary tk) word of
        None \<Rightarrow>
          assign_indices rest
            (tk\<lparr>vocabulary := map_set (vocabulary tk) word (nextIndex tk), nextIndex := nextIndex tk + 1\<rparr>)
            (is @ [nextIndex tk]) (vs @ [tf])
      | Some index \<Rightarrow> assign_indices rest tk (is @ [index]) (vs @ [tf]))"

definition generateSparseVector ::
  "env \<Rightarrow> string \<Rightarrow> bm25_tokenizer \<Rightarrow> world \<Rightarrow> sparse_vector \<times> bm25_tokenizer \<times> world"
where
  "generateSparseVector E text tk w =
     (if text = [] \<or> length (trim text) = 0 then (\<lparr>indices = [], values = []\<rparr>, tk, w)
      else
        let (tokens, w1) = tokenize E text w;
            termFreqs = term_freqs tokens
        in if length termFreqs = 0 then (\<lparr>indices = [], values = []\<rparr>, tk, w1)
           else
             let (is, vs, tk1) = assign_indices termFreqs tk [] []
             in (\<lparr>indices = is, values = vs\<rparr>, tk1, w1))"

subsection \<open>The vocabulary file\<close>

text \<open>
  \<^verbatim>\<open>path.dirname\<close>, for paths without trailing slashes: what stands before the last
  slash.
\<close>

definition dirname :: "string \<Rightarrow> string" where
  "dirname p =
     (if CHR ''/'' \<notin> set p then ''.''
      else let d = rev (drop 1 (dropWhile (\<lambda>c. c \<noteq> CHR ''/'') (rev p)))
           in if d = [] then ''/'' else d)"

definition existsSync :: "world \<Rightarrow> string \<Rightarrow> bool" where
  "existsSync w p = (files w p \<noteq> None \<or> p \<in> set (dirs w))"

text \<open>
  \<^verbatim>\<open>loadVocabulary\<close>. Inside the \<^verbatim>\<open>try\<close>: \<^verbatim>\<open>readFileSync\<close> throws when the read fails or
  the path is a directory, \<^verbatim>\<open>JSON.parse\<close> throws on text that is not JSON, and
  \<^verbatim>\<open>Object.entries\<close> throws on a missing \<^verbatim>\<open>vocabulary\<close>. The \<^verbatim>\<open>catch\<close> warns and resets.
\<close>

definition load_failed :: "bm25_tokenizer \<Rightarrow> world \<Rightarrow> bm25_tokenizer \<times> world" where
  "load_failed tk w = (tk\<lparr>vocabulary := [], nextIndex := 0\<rparr>, w\<lparr>console := console w @ [Warn]\<rparr>)"

definition loadVocabulary :: "env \<Rightarrow> bm25_tokenizer \<Rightarrow> world \<Rightarrow> bm25_tokenizer \<times> world" where
  "loadVocabulary E tk w =
     (case vocabularyPath tk of
        None \<Rightarrow> (tk, w)
      | Some p \<Rightarrow>
          if p = [] \<or> \<not> existsSync w p then (tk, w)
          else if fs_fails E (ReadFile p) then load_failed tk w
          else
            (case files w p of
               None \<Rightarrow> load_failed tk w
             | Some NotJson \<Rightarrow> load_failed tk w
             | Some (JsonDoc vocabData) \<Rightarrow>
                 (case j_vocabulary vocabData of
                    None \<Rightarrow> load_failed tk w
                  | Some entries \<Rightarrow>
                      let voc = from_entries entries
                      in (tk\<lparr>vocabulary := voc,
                             nextIndex := num_or (j_nextIndex vocabData) (int (length voc))\<rparr>, w))))"

text \<open>
  \<^verbatim>\<open>saveVocabulary\<close>. Inside the \<^verbatim>\<open>try\<close>: \<^verbatim>\<open>mkdirSync\<close> when the directory is missing,
  then \<^verbatim>\<open>writeFileSync\<close>; either may throw, and the \<^verbatim>\<open>catch\<close> reports to
  \<^verbatim>\<open>console.error\<close> and returns.
\<close>

definition saveVocabulary :: "env \<Rightarrow> bm25_tokenizer \<Rightarrow> world \<Rightarrow> world" where
  "saveVocabulary E tk w =
     (case vocabularyPath tk of
        None \<Rightarrow> w
      | Some p \<Rightarrow>
          if p = [] then w
          else
            let dir = dirname p in
            if \<not> existsSync w dir \<and> fs_fails E (MkDir dir) then w\<lparr>console := console w @ [ErrorLog]\<rparr>
            else
              let w1 = (if \<not> existsSync w dir then w\<lparr>dirs := dirs w @ [dir]\<rparr> else w);
                  vocabData = \<lparr>j_vocabulary = Some (from_entries (vocabulary tk)),
                               j_nextIndex = Some (nextIndex tk),
                               j_timestamp = Some (now_iso E)\<rparr>
              in if fs_fails E (WriteFile p) \<or> p \<in> set (dirs w1)
                 then w1\<lparr>console := console w1 @ [ErrorLog]\<rparr>
                 else w1\<lparr>files := (files w1)(p \<mapsto> JsonDoc vocabData)\<rparr>)"

text \<open>The constructor: an empty table, counter 0, and a load when a path is given.\<close>

definition new_BM25Tokenizer :: "env \<Rightarrow> string option \<Rightarrow> world \<Rightarrow> bm25_tokenizer \<times> world" where
  "new_BM25Tokenizer E path w =
     (let tk = \<lparr>vocabulary = [], nextIndex = 0, vocabularyPath = path\<rparr>
      in if truthy_str path then loadVocabulary E tk w else (tk, w))"

section \<open>QdrantVectorDatabase\<close>

record qdrant_hnsw_config =
  h_m :: "int option"
  h_ef_construct :: "int option"
  h_full_scan_threshold :: "int option"
  h_on_disk :: "bool option"

record qdrant_quantization_config =
  q_type :: string
  q_quantile :: "real option"
  q_always_ram :: "bool option"

record qdrant_sparse_index_config =
  s_on_disk :: "bool option"
  s_datatype :: "string option"

text \<open>
  \<open>indexing_hnsw\<close> is \<^verbatim>\<open>config.indexing?.hnsw\<close> and \<open>indexing_sparse\<close> is
  \<^verbatim>\<open>config.indexing?.sparse\<close>: an object, or missing.
\<close>

record qdrant_config =
  url :: string
  apiKey :: "string option"
  quantization :: "qdrant_quantization_config option"
  indexing_hnsw :: "qdrant_hnsw_config option"
  indexing_sparse :: "qdrant_sparse_index_config option"
  cfg_vocabularyPath :: "string option"

text \<open>\<open>client\<close> tells whether the client handle is set (\<^verbatim>\<open>this.client\<close> is not null).\<close>

record qdrant_db =
  config :: qdrant_config
  client :: bool
  tokenizers :: "(string \<times> bm25_tokenizer) list"

text \<open>The constructor starts \<^verbatim>\<open>initialize\<close>, which sets the client handle.\<close>

definition initialize :: "qdrant_db \<Rightarrow> qdrant_db" where
  "initialize db = db\<lparr>client := True\<rparr>"

definition new_QdrantVectorDatabase :: "qdrant_config \<Rightarrow> qdrant_db" where
  "new_QdrantVectorDatabase cfg = initialize \<lparr>config = cfg, client = False, tokenizers = []\<rparr>"

definition ensureInitialized :: "qdrant_db \<Rightarrow> js_error + unit" where
  "ensureInitialized db =
     (if \<not> client db then Inl (Error ''QdrantClient is not initialized.'') else Inr ())"

subsection \<open>The vocabulary registry\<close>

definition last_segment :: "string \<Rightarrow> string" where
  "last_segment name = rev (takeWhile (\<lambda>c. c \<noteq> CHR ''_'') (rev name))"

text \<open>
  \<^verbatim>\<open>path.join\<close> belongs to the platform library and normalises what it joins; it is
  the field \<open>path_join\<close> of the environment.
\<close>

definition getVocabularyPathFromCollection :: "env \<Rightarrow> string \<Rightarrow> string" where
  "getVocabularyPathFromCollection E collectionName =
     (let homeDir = homedir E;
          vocabularyDir = path_join E [homeDir, ''.context'', ''vocabulary''];
          collectionHash = last_segment collectionName;
          vocabularyFile = ''vocabulary-'' @ collectionHash @ ''.json''
      in path_join E [vocabularyDir, vocabularyFile])"

definition getTokenizer ::
  "env \<Rightarrow> string \<Rightarrow> qdrant_db \<Rightarrow> world \<Rightarrow> bm25_tokenizer \<times> qdrant_db \<times> world"
where
  "getTokenizer E collectionName db w =
     (case map_get (tokenizers db) collectionName of
        Some tk \<Rightarrow> (tk, db, w)
      | None \<Rightarrow>
          let path = (if truthy_str (cfg_vocabularyPath (config db)) then cfg_vocabularyPath (config db)
                      else Some (getVocabularyPathFromCollection E collectionName));
              (tk, w1) = new_BM25Tokenizer E path w
          in (tk, db\<lparr>tokenizers := map_set (tokenizers db) collectionName tk\<rparr>, w1))"

text \<open>
  A tokenizer is an object held by the registry: what \<^verbatim>\<open>generateSparseVector\<close> changes
  in it is seen by the next \<^verbatim>\<open>getTokenizer\<close>.
\<close>

definition encode_for ::
  "env \<Rightarrow> string \<Rightarrow> string \<Rightarrow> qdrant_db \<Rightarrow> world \<Rightarrow> sparse_vector \<times> qdrant_db \<times> world"
where
  "encode_for E collectionName text db w =
     (let (tk, db1, w1) = getTokenizer E collectionName db w;
          (sv, tk1, w2) = generateSparseVector E text tk w1
      in (sv, db1\<lparr>tokenizers := map_set (tokenizers db1) collectionName tk1\<rparr>, w2))"

subsection \<open>withRetry\<close>

text \<open>
  The \<^verbatim>\<open>for\<close> loop of \<^verbatim>\<open>withRetry\<close> from \<open>attempt\<close> on. An awaited timer appends its
  delay to \<open>sleeps\<close>. After the loop, \<^verbatim>\<open>throw lastError!\<close>.
\<close>

definition is_terminal :: "js_error \<Rightarrow> bool" where
  "is_terminal e = (str_includes (message e) ''already exists'' \<or> str_includes (message e) ''not found'')"

function withRetry_loop ::
  "(world \<Rightarrow> (js_error + 'a) \<times> world) \<Rightarrow> int \<Rightarrow> int \<Rightarrow> int \<Rightarrow> js_error option \<Rightarrow> world
   \<Rightarrow> (thrown + 'a) \<times> world"
where
  "withRetry_loop operation maxRetries attempt delay lastError w =
     (if attempt \<le> maxRetries then
        (case operation w of
           (Inr v, w1) \<Rightarrow> (Inr v, w1)
         | (Inl e, w1) \<Rightarrow>
             if is_terminal e \<or> attempt = maxRetries then (Inl (Thrown e), w1)
             else withRetry_loop operation maxRetries (attempt + 1) (delay * 2) (Some e)
                    (w1\<lparr>sleeps := sleeps w1 @ [delay]\<rparr>))
      else (Inl (case lastError of None \<Rightarrow> ThrownUndefined | Some e \<Rightarrow> Thrown e), w))"
  by pat_completeness auto
termination
  by (relation "measure (\<lambda>(operation, maxRetries, attempt, delay, lastError, w). nat (maxRetries + 1 - attempt))") auto

definition withRetry ::
  "(world \<Rightarrow> (js_error + 'a) \<times> world) \<Rightarrow> int \<Rightarrow> int \<Rightarrow> world \<Rightarrow> (thrown + 'a) \<times> world"
where
  "withRetry operation maxRetries initialDelay w =
     withRetry_loop operation maxRetries 1 initialDelay None w"

subsection \<open>Calls of the client library\<close>

definition client_createCollection ::
  "env \<Rightarrow> string \<Rightarrow> collection_config \<Rightarrow> world \<Rightarrow> (js_error + bool) \<times> world"
where
  "client_createCollection E name cfg w =
     (remote_createCollection E (remote_log w) name cfg,
      w\<lparr>remote_log := remote_log w @ [CreateCollection name cfg]\<rparr>)"

definition client_getCollection ::
  "env \<Rightarrow> string \<Rightarrow> world \<Rightarrow> (js_error + collection_info) \<times> world"
where
  "client_getCollection E name w =
     (remote_getCollection E (remote_log w) name,
      w\<lparr>remote_log := remote_log w @ [GetCollection name]\<rparr>)"

definition client_upsert ::
  "env \<Rightarrow> string \<Rightarrow> hybrid_point list \<Rightarrow> world \<Rightarrow> (js_error + upsert_result) \<times> world"
where
  "client_upsert E name points w =
     (remote_upsert E (remote_log w) name points,
      w\<lparr>remote_log := remote_log w @ [Upsert name points]\<rparr>)"

definition client_search ::
  "env \<Rightarrow> string \<Rightarrow> search_request \<Rightarrow> world \<Rightarrow> (js_error + scored_point list) \<times> world"
where
  "client_search E name req w =
     (remote_search E (remote_log w) name req,
      w\<lparr>remote_log := remote_log w @ [Search name req]\<rparr>)"

definition client_query ::
  "env \<Rightarrow> string \<Rightarrow> query_request \<Rightarrow> world \<Rightarrow> (js_error + query_response) \<times> world"
where
  "client_query E name req w =
     (remote_query E (remote_log w) name req,
      w\<lparr>remote_log := remote_log w @ [Query name req]\<rparr>)"

subsection \<open>createCollection\<close>

definition hnsw_of :: "qdrant_hnsw_config \<Rightarrow> hnsw_config" where
  "hnsw_of hnswConfig =
     \<lparr>m = num_or (h_m hnswConfig) 16,
      ef_construct = num_or (h_ef_construct hnswConfig) 100,
      full_scan_threshold = num_or (h_full_scan_threshold hnswConfig) 10000,
      on_disk = bool_or_false (h_on_disk hnswConfig)\<rparr>"

definition quantization_of :: "qdrant_quantization_config \<Rightarrow> quantization_config option" where
  "quantization_of quantConfig =
     (if q_type quantConfig = ''scalar''
      then Some (Scalar ''int8'' (num_or (q_quantile quantConfig) 0.99) (bool_or_false (q_always_ram quantConfig)))
      else if q_type quantConfig = ''binary''
      then Some (Binary (bool_or_false (q_always_ram quantConfig)))
      else None)"

text \<open>
  \<^verbatim>\<open>vectorConfig\<close> (and the identical \<^verbatim>\<open>denseVectorConfig\<close> of
  \<^verbatim>\<open>createHybridCollection\<close>): \<^verbatim>\<open>hnsw_config\<close> is set under
  \<^verbatim>\<open>if (this.config.indexing?.hnsw)\<close>, \<^verbatim>\<open>quantization_config\<close> under
  \<^verbatim>\<open>if (this.config.quantization)\<close>.
\<close>

definition vectorConfig :: "qdrant_config \<Rightarrow> int \<Rightarrow> vector_config" where
  "vectorConfig cfg dimension =
     \<lparr>size = dimension, distance = ''Cosine'',
      hnsw_config = (case indexing_hnsw cfg of None \<Rightarrow> None | Some hnswConfig \<Rightarrow> Some (hnsw_of hnswConfig)),
      quantization_config = (case quantization cfg of None \<Rightarrow> None | Some quantConfig \<Rightarrow> quantization_of quantConfig)\<rparr>"

definition collectionConfig :: "qdrant_config \<Rightarrow> int \<Rightarrow> collection_config" where
  "collectionConfig cfg dimension =
     \<lparr>vectors = Single (vectorConfig cfg dimension), sparse_vectors = None,
      shard_number = 1, replication_factor = 1\<rparr>"

definition createCollection ::
  "env \<Rightarrow> string \<Rightarrow> int \<Rightarrow> qdrant_db \<Rightarrow> world \<Rightarrow> (thrown + unit) \<times> world"
where
  "createCollection E collectionName dimension db w =
     (case ensureInitialized db of
        Inl e \<Rightarrow> (Inl (Thrown e), w)
      | Inr _ \<Rightarrow>
          (case withRetry (client_createCollection E collectionName (collectionConfig (config db) dimension))
                  3 1000 w of
             (Inr _, w1) \<Rightarrow> (Inr (), w1)
           | (Inl error, w1) \<Rightarrow> (Inl error, w1\<lparr>console := console w1 @ [ErrorLog]\<rparr>)))"

subsection \<open>createHybridCollection\<close>

definition sparseVectorConfig :: "qdrant_config \<Rightarrow> sparse_vector_config" where
  "sparseVectorConfig cfg =
     \<lparr>modifier = ''idf'',
      index_on_disk = nullish_or (case indexing_sparse cfg of None \<Rightarrow> None | Some sp \<Rightarrow> s_on_disk sp) True,
      index_datatype = (case indexing_sparse cfg of
                          None \<Rightarrow> None
                        | Some sp \<Rightarrow> if truthy_str (s_datatype sp) then s_datatype sp else None)\<rparr>"

definition hybridCollectionConfig :: "qdrant_config \<Rightarrow> int \<Rightarrow> collection_config" where
  "hybridCollectionConfig cfg dimension =
     \<lparr>vectors = Named [(''dense'', vectorConfig cfg dimension)],
      sparse_vectors = Some [(''sparse'', sparseVectorConfig cfg)],
      shard_number = 1, replication_factor = 1\<rparr>"

definition createHybridCollection ::
  "env \<Rightarrow> string \<Rightarrow> int \<Rightarrow> qdrant_db \<Rightarrow> world \<Rightarrow> (thrown + unit) \<times> world"
where
  "createHybridCollection E collectionName dimension db w =
     (case ensureInitialized db of
        Inl e \<Rightarrow> (Inl (Thrown e), w)
      | Inr _ \<Rightarrow>
          (case withRetry (client_createCollection E collectionName (hybridCollectionConfig (config db) dimension))
                  3 1000 w of
             (Inr _, w1) \<Rightarrow> (Inr (), w1)
           | (Inl error, w1) \<Rightarrow> (Inl error, w1\<lparr>console := console w1 @ [ErrorLog]\<rparr>)))"

subsection \<open>hasCollection\<close>

definition hasCollection :: "env \<Rightarrow> string \<Rightarrow> qdrant_db \<Rightarrow> world \<Rightarrow> (js_error + bool) \<times> world" where
  "hasCollection E collectionName db w =
     (case ensureInitialized db of
        Inl e \<Rightarrow> (Inl e, w)
      | Inr _ \<Rightarrow>
          (case client_getCollection E collectionName w of
             (Inr _, w1) \<Rightarrow> (Inr True, w1)
           | (Inl _, w1) \<Rightarrow> (Inr False, w1)))"

subsection \<open>insertHybrid\<close>

fun string_of_nat :: "nat \<Rightarrow> string" where
  "string_of_nat n =
     (if n < 10 then [char_of (48 + n)] else string_of_nat (n div 10) @ [char_of (48 + n mod 10)])"

text \<open>
  The payload object, its entries in the order they are set. Where JavaScript lists
  integer-like keys ahead of the others, the list does not; a payload stands for the
  object up to the order of its entries.
\<close>

definition hybrid_payload :: "vector_document \<Rightarrow> (string \<times> jsval) list" where
  "hybrid_payload doc =
     from_entries
       ([(''content'', JStr (doc_content doc)),
         (''relativePath'', JStr (doc_relativePath doc)),
         (''startLine'', JNum (doc_startLine doc)),
         (''endLine'', JNum (doc_endLine doc)),
         (''fileExtension'', JStr (doc_fileExtension doc))]
        @ filter (\<lambda>(key, _). key \<noteq> ''sparseVector'') (from_entries (doc_metadata doc)))"

text \<open>
  \<^verbatim>\<open>documents.map((doc, index) => ...)\<close>: the callback throws on the first document whose
  vector is no array or is empty, after \<^verbatim>\<open>console.error\<close>; the documents before it have
  been encoded by then.
\<close>

fun build_points ::
  "env \<Rightarrow> string \<Rightarrow> vector_document list \<Rightarrow> nat \<Rightarrow> qdrant_db \<Rightarrow> world
   \<Rightarrow> (js_error + hybrid_point list) \<times> qdrant_db \<times> world"
where
  "build_points E collectionName [] index db w = (Inr [], db, w)"
| "build_points E collectionName (doc # rest) index db w =
     (case doc_vector doc of
        NotArray \<Rightarrow>
          (Inl (Error (''Document '' @ string_of_nat index @ '' ('' @ doc_id doc @ '') has non-array vector'')),
           db, w\<lparr>console := console w @ [ErrorLog]\<rparr>)
      | Arr v \<Rightarrow>
          if length v = 0 then
            (Inl (Error (''Document '' @ string_of_nat index @ '' ('' @ doc_id doc @ '') has empty vector'')),
             db, w\<lparr>console := console w @ [ErrorLog]\<rparr>)
          else
            let (sparseVector, db1, w1) = encode_for E collectionName (doc_content doc) db w;
                point = \<lparr>pt_id = doc_id doc, pt_dense = v, pt_sparse = sparseVector,
                         pt_payload = hybrid_payload doc\<rparr>
            in (case build_points E collectionName rest (index + 1) db1 w1 of
                  (Inl e, db2, w2) \<Rightarrow> (Inl e, db2, w2)
                | (Inr points, db2, w2) \<Rightarrow> (Inr (point # points), db2, w2)))"

text \<open>
  \<^verbatim>\<open>sparseVectors && Object.keys(sparseVectors).includes('sparse')\<close>, where
  \<^verbatim>\<open>sparseVectors\<close> is \<^verbatim>\<open>config?.params?.sparse_vectors || config?.sparse_vectors\<close>.
\<close>

definition hasSparseName :: "collection_info \<Rightarrow> bool" where
  "hasSparseName collectionInfo =
     (case (case params_sparse_vectors collectionInfo of
              Some ks \<Rightarrow> Some ks
            | None \<Rightarrow> config_sparse_vectors collectionInfo) of
        None \<Rightarrow> False
      | Some ks \<Rightarrow> ''sparse'' \<in> set ks)"

text \<open>
  The outer \<^verbatim>\<open>catch\<close> of \<^verbatim>\<open>insertHybrid\<close>: three \<^verbatim>\<open>console.error\<close> lines (the batch is
  not empty there), then the error is thrown again.
\<close>

definition insert_failed :: "js_error \<Rightarrow> qdrant_db \<Rightarrow> world \<Rightarrow> (js_error + unit) \<times> qdrant_db \<times> world" where
  "insert_failed error db w = (Inl error, db, w\<lparr>console := console w @ [ErrorLog, ErrorLog, ErrorLog]\<rparr>)"

text \<open>What follows an upsert that returned.\<close>

definition after_upsert ::
  "env \<Rightarrow> string \<Rightarrow> upsert_result \<Rightarrow> qdrant_db \<Rightarrow> world \<Rightarrow> qdrant_db \<times> world"
where
  "after_upsert E collectionName result db w =
     (if result = Some ''acknowledged'' \<or> result = Some ''completed'' then
        let w1 = (case client_getCollection E collectionName w of
                    (Inr _, w') \<Rightarrow> w'
                  | (Inl _, w') \<Rightarrow> w'\<lparr>console := console w' @ [Warn]\<rparr>);
            (tokenizer, db1, w2) = getTokenizer E collectionName db w1
        in (db1, saveVocabulary E tokenizer w2)
      else (db, w\<lparr>console := console w @ [Warn]\<rparr>))"

definition insertHybrid ::
  "env \<Rightarrow> string \<Rightarrow> vector_document list \<Rightarrow> qdrant_db \<Rightarrow> world
   \<Rightarrow> (js_error + unit) \<times> qdrant_db \<times> world"
where
  "insertHybrid E collectionName documents db w =
     (if length documents = 0 then (Inr (), db, w)
      else
        case ensureInitialized db of
          Inl e \<Rightarrow> (Inl e, db, w)
        | Inr _ \<Rightarrow>
            (case hasCollection E collectionName db w of
               (Inl e, w1) \<Rightarrow> insert_failed e db w1
             | (Inr collectionExists, w1) \<Rightarrow>
                 if \<not> collectionExists
                 then insert_failed (Error (''Collection '' @ [CHR 0x27] @ collectionName @ [CHR 0x27] @ '' does not exist'')) db w1
                 else
                   (case client_getCollection E collectionName w1 of
                      (Inl e, w2) \<Rightarrow> insert_failed e db w2
                    | (Inr collectionInfo, w2) \<Rightarrow>
                        if \<not> hasSparseName collectionInfo
                        then insert_failed
                               (Error (''Collection '' @ [CHR 0x27] @ collectionName @ [CHR 0x27]
                                       @ '' exists but does not support sparse vectors. Please use createHybridCollection() or delete and recreate the collection.''))
                               db w2
                        else
                          (case build_points E collectionName documents 0 db w2 of
                             (Inl e, db3, w3) \<Rightarrow> insert_failed e db3 w3
                           | (Inr points, db3, w3) \<Rightarrow>
                               (case client_upsert E collectionName points w3 of
                                  (Inl e, w4) \<Rightarrow> insert_failed e db3 w4
                                | (Inr result, w4) \<Rightarrow>
                                    let (db5, w5) = after_upsert E collectionName result db3 w4
                                    in (Inr (), db5, w5))))))"

subsection \<open>search and hybridSearch\<close>

record search_options =
  topK :: "int option"
  so_filterExpr :: "filter_expr option"

record hybrid_search_options =
  ho_limit :: "int option"
  ho_filterExpr :: "filter_expr option"

datatype request_data = VectorData "real list" | TextData string | OtherData

record hybrid_search_request =
  hs_data :: request_data
  anns_field :: string
  hs_limit :: int

record result_document =
  rd_id :: string
  rd_vector :: "real list"
  rd_content :: "jsval option"
  rd_relativePath :: "jsval option"
  rd_startLine :: "jsval option"
  rd_endLine :: "jsval option"
  rd_fileExtension :: "jsval option"
  rd_metadata :: "(string \<times> jsval) list"

record search_result =
  document :: result_document
  score :: real

definition extractMetadata :: "(string \<times> jsval) list \<Rightarrow> (string \<times> jsval) list" where
  "extractMetadata payload =
     filter (\<lambda>(key, _). key \<notin> set [''content'', ''relativePath'', ''startLine'', ''endLine'', ''fileExtension''])
       payload"

definition to_result :: "scored_point \<Rightarrow> search_result" where
  "to_result point =
     (let payload = nullish_or (sp_payload point) []
      in \<lparr>document =
            \<lparr>rd_id = sp_id point, rd_vector = [],
             rd_content = map_get payload ''content'',
             rd_relativePath = map_get payload ''relativePath'',
             rd_startLine = map_get payload ''startLine'',
             rd_endLine = map_get payload ''endLine'',
             rd_fileExtension = map_get payload ''fileExtension'',
             rd_metadata = extractMetadata payload\<rparr>,
          score = num_or (sp_score point) 0\<rparr>)"

definition searchRequest :: "string \<Rightarrow> real list \<Rightarrow> search_options option \<Rightarrow> search_request" where
  "searchRequest collectionName queryVector options =
     (let isHybridCollection = prefix ''hybrid_'' collectionName
      in \<lparr>sr_vector = (if isHybridCollection then NamedVector ''dense'' queryVector else PlainVector queryVector),
          sr_limit = num_or (case options of None \<Rightarrow> None | Some opts \<Rightarrow> topK opts) 10,
          sr_with_payload = True,
          sr_filter = (case options of
                         None \<Rightarrow> None
                       | Some opts \<Rightarrow> if truthy_filter (so_filterExpr opts) then so_filterExpr opts else None)\<rparr>)"

definition search ::
  "env \<Rightarrow> string \<Rightarrow> real list \<Rightarrow> search_options option \<Rightarrow> qdrant_db \<Rightarrow> world
   \<Rightarrow> (js_error + search_result list) \<times> world"
where
  "search E collectionName queryVector options db w =
     (case ensureInitialized db of
        Inl e \<Rightarrow> (Inl e, w)
      | Inr _ \<Rightarrow>
          (case client_search E collectionName (searchRequest collectionName queryVector options) w of
             (Inl error, w1) \<Rightarrow> (Inl error, w1\<lparr>console := console w1 @ [ErrorLog]\<rparr>)
           | (Inr result, w1) \<Rightarrow> (Inr (map to_result result), w1)))"

text \<open>
  The loop of \<^verbatim>\<open>hybridSearch\<close> that fills \<^verbatim>\<open>prefetchQueries\<close>, one entry per request in
  the order of the requests.
\<close>

definition over_fetch :: "int \<Rightarrow> int" where
  "over_fetch limit = max (limit * 3) 100"

fun build_prefetch ::
  "env \<Rightarrow> string \<Rightarrow> hybrid_search_request list \<Rightarrow> qdrant_db \<Rightarrow> world
   \<Rightarrow> prefetch list \<times> qdrant_db \<times> world"
where
  "build_prefetch E collectionName [] db w = ([], db, w)"
| "build_prefetch E collectionName (request # rest) db w =
     (let isDenseVector = (anns_field request = ''vector'' \<or> anns_field request = ''dense'')
      in if isDenseVector then
           let queryVector = (case hs_data request of VectorData v \<Rightarrow> v | _ \<Rightarrow> []);
               (more, db1, w1) = build_prefetch E collectionName rest db w
           in (\<lparr>pf_prefetch = [], pf_query = DenseQuery queryVector, pf_using = ''dense'',
                pf_limit = over_fetch (hs_limit request), pf_with_payload = True\<rparr> # more, db1, w1)
         else
           let queryText = (case hs_data request of TextData t \<Rightarrow> t | _ \<Rightarrow> []);
               (querySparseVector, db1, w1) = encode_for E collectionName queryText db w;
               (more, db2, w2) = build_prefetch E collectionName rest db1 w1
           in (\<lparr>pf_prefetch = [],
                pf_query = SparseQuery \<lparr>indices = indices querySparseVector, values = values querySparseVector\<rparr>,
                pf_using = ''sparse'',
                pf_limit = over_fetch (hs_limit request), pf_with_payload = True\<rparr> # more, db2, w2))"

definition queryRequest :: "prefetch list \<Rightarrow> hybrid_search_options option \<Rightarrow> query_request" where
  "queryRequest prefetchQueries options =
     \<lparr>qr_prefetch = prefetchQueries,
      qr_fusion = ''rrf'',
      qr_limit = num_or (case options of None \<Rightarrow> None | Some opts \<Rightarrow> ho_limit opts) 10,
      qr_with_payload = True,
      qr_filter = (case options of
                     None \<Rightarrow> None
                   | Some opts \<Rightarrow> if truthy_filter (ho_filterExpr opts) then ho_filterExpr opts else None)\<rparr>"

definition hybridSearch ::
  "env \<Rightarrow> string \<Rightarrow> hybrid_search_request list \<Rightarrow> hybrid_search_options option \<Rightarrow> qdrant_db \<Rightarrow> world
   \<Rightarrow> (js_error + search_result list) \<times> qdrant_db \<times> world"
where
  "hybridSearch E collectionName searchRequests options db w =
     (case ensureInitialized db of
        Inl e \<Rightarrow> (Inl e, db, w)
      | Inr _ \<Rightarrow>
          if length searchRequests = 0 then (Inr [], db, w)
          else
            let (prefetchQueries, db1, w1) = build_prefetch E collectionName searchRequests db w
            in (case client_query E collectionName (queryRequest prefetchQueries options) w1 of
                  (Inl error, w2) \<Rightarrow> (Inl error, db1, w2\<lparr>console := console w2 @ [ErrorLog]\<rparr>)
                | (Inr queryResult, w2) \<Rightarrow>
                    let result = (case queryResult of
                                    PointArray ps \<Rightarrow> ps
                                  | PointsObject ps \<Rightarrow> nullish_or ps [])
                    in (Inr (map to_result result), db1, w2)))"

section \<open>Notions used in the statements\<close>

text \<open>
  A dense vector that \<^verbatim>\<open>insertHybrid\<close> rejects: no array, or an empty one. \<open>first_bad\<close>
  is the position of the first such document of a batch, \<open>validation_error\<close> the error
  the callback throws for it.
\<close>

definition bad_vector :: "vector_document \<Rightarrow> bool" where
  "bad_vector doc = (case doc_vector doc of NotArray \<Rightarrow> True | Arr v \<Rightarrow> length v = 0)"

definition validation_error :: "nat \<Rightarrow> vector_document \<Rightarrow> js_error" where
  "validation_error index doc =
     Error (''Document '' @ string_of_nat index @ '' ('' @ doc_id doc
            @ (case doc_vector doc of NotArray \<Rightarrow> '') has non-array vector''
               | Arr v \<Rightarrow> '') has empty vector''))"

definition first_bad :: "vector_document list \<Rightarrow> nat" where
  "first_bad docs = length (takeWhile (\<lambda>d. \<not> bad_vector d) docs)"

text \<open>The distinct tokens of a token stream, in the order of their first occurrence.\<close>

definition distinct_tokens :: "string list \<Rightarrow> string list" where
  "distinct_tokens tokens = rev (remdups (rev tokens))"

text \<open>
  A vocabulary in which no term stands twice, no index stands twice, and every index is
  non-negative and below the counter.
\<close>

definition vocab_inv :: "bm25_tokenizer \<Rightarrow> bool" where
  "vocab_inv tk =
     (distinct (map fst (vocabulary tk)) \<and> distinct (map snd (vocabulary tk))
      \<and> 0 \<le> nextIndex tk
      \<and> (\<forall>i\<in>set (map snd (vocabulary tk)). 0 \<le> i \<and> i < nextIndex tk))"

text \<open>How \<^verbatim>\<open>hybridSearch\<close> classifies a request: dense by its field name, lexical otherwise.\<close>

definition is_dense :: "hybrid_search_request \<Rightarrow> bool" where
  "is_dense request = (anns_field request = ''vector'' \<or> anns_field request = ''dense'')"

text \<open>
  A disk on which a snapshot can be written at a path: the directory is there or can be
  made, the write does not fail, and the path is not itself a directory.
\<close>

definition writable :: "env \<Rightarrow> world \<Rightarrow> string \<Rightarrow> bool" where
  "writable E w p =
     ((existsSync w (dirname p) \<or> \<not> fs_fails E (MkDir (dirname p)))
      \<and> \<not> fs_fails E (WriteFile p) \<and> p \<notin> set (dirs w) \<and> dirname p \<noteq> p)"

text \<open>
  The text of a request (empty when its payload is no string), the texts of the lexical
  requests of a list, and the registry and world reached by encoding texts in turn for a
  collection.
\<close>

definition request_text :: "hybrid_search_request \<Rightarrow> string" where
  "request_text request = (case hs_data request of TextData t \<Rightarrow> t | _ \<Rightarrow> [])"

definition lexical_texts :: "hybrid_search_request list \<Rightarrow> string list" where
  "lexical_texts requests = map request_text (filter (\<lambda>r. \<not> is_dense r) requests)"

fun after_texts :: "env \<Rightarrow> string \<Rightarrow> string list \<Rightarrow> qdrant_db \<Rightarrow> world \<Rightarrow> qdrant_db \<times> world" where
  "after_texts E name [] db w = (db, w)"
| "after_texts E name (t # ts) db w =
     after_texts E name ts (fst (snd (encode_for E name t db w))) (snd (snd (encode_for E name t db w)))"

text \<open>
  The tokenizer that \<^verbatim>\<open>getTokenizer\<close> hands out in a given registry and world, and the
  world it leaves.
\<close>

definition tokenizer_at :: "env \<Rightarrow> string \<Rightarrow> qdrant_db \<times> world \<Rightarrow> bm25_tokenizer \<times> world" where
  "tokenizer_at E name st =
     (fst (getTokenizer E name (fst st) (snd st)), snd (snd (getTokenizer E name (fst st) (snd st))))"

section \<open>Concrete inputs\<close>

text \<open>
  A service that answers the \<open>n\<close>-th \<^verbatim>\<open>createCollection\<close> call with the \<open>n\<close>-th entry of
  a script and succeeds once the script is used up; an empty disk; a configuration with
  the required \<^verbatim>\<open>url\<close> only. Paths are joined with a slash.
\<close>

fun plain_join :: "string list \<Rightarrow> string" where
  "plain_join [] = ''.''"
| "plain_join [s] = s"
| "plain_join (s # t # ts) = s @ ''/'' @ plain_join (t # ts)"

definition scripted_env :: "(js_error + bool) list \<Rightarrow> env" where
  "scripted_env answers =
     \<lparr>remote_getCollection = (\<lambda>log name. Inl (Error ''Not found'')),
      remote_createCollection =
        (\<lambda>log name cfg. if length log < length answers then answers ! length log else Inr True),
      remote_upsert = (\<lambda>log name points. Inr (Some ''completed'')),
      remote_search = (\<lambda>log name req. Inr []),
      remote_query = (\<lambda>log name req. Inr (PointArray [])),
      readDoc = (\<lambda>text. []),
      fs_fails = (\<lambda>op. False),
      homedir = ''/home/u'',
      path_join = plain_join,
      now_iso = ''2024-01-01T00:00:00.000Z''\<rparr>"

definition world0 :: world where
  "world0 = \<lparr>remote_log = [], sleeps = [], console = [], files = (\<lambda>p. None), dirs = [], nlp_calls = []\<rparr>"

definition plain_config :: qdrant_config where
  "plain_config =
     \<lparr>url = ''http://localhost:6333'', apiKey = None, quantization = None, indexing_hnsw = None,
      indexing_sparse = None,
      cfg_vocabularyPath = None\<rparr>"

text \<open>A configuration whose \<^verbatim>\<open>indexing.hnsw\<close> is an object with no field set.\<close>

definition empty_hnsw_config :: qdrant_config where
  "empty_hnsw_config =
     plain_config\<lparr>indexing_hnsw :=
       Some \<lparr>h_m = None, h_ef_construct = None, h_full_scan_threshold = None, h_on_disk = None\<rparr>\<rparr>"

text \<open>
  A service on which every collection exists and has the sparse space \<^verbatim>\<open>sparse\<close>, and
  which acknowledges every upsert; the natural-language library is a table from texts to
  tokens.
\<close>

definition word_token :: "string \<Rightarrow> nlp_token" where
  "word_token s = \<lparr>tk_type = ''word'', tk_out = s, tk_normal = s\<rparr>"

definition hybrid_env :: "(string \<times> string list) list \<Rightarrow> env" where
  "hybrid_env texts =
     \<lparr>remote_getCollection =
        (\<lambda>log name. Inr \<lparr>params_sparse_vectors = Some [''sparse''], config_sparse_vectors = None,
                           points_count = 0\<rparr>),
      remote_createCollection = (\<lambda>log name cfg. Inr True),
      remote_upsert = (\<lambda>log name points. Inr (Some ''completed'')),
      remote_search = (\<lambda>log name req. Inr []),
      remote_query = (\<lambda>log name req. Inr (PointArray [])),
      readDoc = (\<lambda>text. map word_token (nullish_or (map_get texts text) [])),
      fs_fails = (\<lambda>op. False),
      homedir = ''/home/u'',
      path_join = plain_join,
      now_iso = ''2024-01-01T00:00:00.000Z''\<rparr>"

definition sample_doc :: "string \<Rightarrow> doc_vector \<Rightarrow> string \<Rightarrow> vector_document" where
  "sample_doc ident vec text =
     \<lparr>doc_id = ident, doc_vector = vec, doc_content = text, doc_relativePath = ''src/a.ts'',
      doc_startLine = 1, doc_endLine = 2, doc_fileExtension = ''.ts'', doc_metadata = []\<rparr>"

text \<open>The same environment with a disk on which every operation fails.\<close>

definition failing_disk :: "env \<Rightarrow> env" where
  "failing_disk E = E\<lparr>fs_fails := (\<lambda>op. True)\<rparr>"

text \<open>A tokenizer as the constructor leaves it when no path is given.\<close>

definition fresh_tokenizer :: bm25_tokenizer where
  "fresh_tokenizer = \<lparr>vocabulary = [], nextIndex = 0, vocabularyPath = None\<rparr>"

text \<open>A tokenizer with two terms and a path on a disk that has no such file yet.\<close>

definition sample_tokenizer :: bm25_tokenizer where
  "sample_tokenizer =
     \<lparr>vocabulary = [(''aa'', 0), (''bb'', 1)], nextIndex = 2,
      vocabularyPath = Some ''/v/vocabulary-ab12.json''\<rparr>"

text \<open>An environment whose natural-language library knows three texts.\<close>

definition query_env :: env where
  "query_env = hybrid_env [(''cc'', [''cc'']), (''dd cc'', [''dd'', ''cc'']), (''bb cc bb'', [''bb'', ''cc'', ''bb''])]"

text \<open>
  A first session encodes a text and saves nothing; a second session starts from the
  disk as the first one left it and encodes another text.
\<close>

definition first_session :: "sparse_vector \<times> bm25_tokenizer \<times> world" where
  "first_session =
     generateSparseVector query_env ''cc''
       (fst (new_BM25Tokenizer query_env (Some ''/v/vocabulary-ab12.json'') world0)) world0"

definition second_session :: "sparse_vector \<times> bm25_tokenizer \<times> world" where
  "second_session =
     generateSparseVector query_env ''dd cc''
       (fst (new_BM25Tokenizer query_env (Some ''/v/vocabulary-ab12.json'') (snd (snd first_session))))
       (snd (snd first_session))"

text \<open>A configuration whose \<^verbatim>\<open>indexing.hnsw\<close> sets some fields, one of them to 0.\<close>

definition custom_hnsw_config :: qdrant_config where
  "custom_hnsw_config =
     plain_config\<lparr>indexing_hnsw :=
       Some \<lparr>h_m = Some 32, h_ef_construct = None, h_full_scan_threshold = Some 0, h_on_disk = Some True\<rparr>\<rparr>"

text \<open>A disk that already holds an older snapshot at the path of \<open>sample_tokenizer\<close>.\<close>

definition used_disk :: world where
  "used_disk =
     world0\<lparr>files := (\<lambda>x. None)(''/v/vocabulary-ab12.json'' \<mapsto>
                 JsonDoc \<lparr>j_vocabulary = Some [(''zz'', 0)], j_nextIndex = Some 1,
                          j_timestamp = Some ''2023-01-01T00:00:00.000Z''\<rparr>),
            dirs := [''/v'']\<rparr>"

text \<open>
  A database whose registry holds \<open>sample_tokenizer\<close> for a collection; a dense request
  followed by two lexical ones, the second on a term that the first one introduces; and
  the prefetch entries they lead to.
\<close>

definition registered_db :: qdrant_db where
  "registered_db =
     (new_QdrantVectorDatabase plain_config)\<lparr>tokenizers := [(''hybrid_ab12'', sample_tokenizer)]\<rparr>"

definition threaded_requests :: "hybrid_search_request list" where
  "threaded_requests =
     [\<lparr>hs_data = VectorData [1, 2, 3], anns_field = ''dense'', hs_limit = 5\<rparr>,
      \<lparr>hs_data = TextData ''bb cc bb'', anns_field = ''sparse'', hs_limit = 50\<rparr>,
      \<lparr>hs_data = TextData ''cc'', anns_field = ''sparse'', hs_limit = 10\<rparr>]"

definition threaded_prefetch :: "prefetch list" where
  "threaded_prefetch =
     [\<lparr>pf_prefetch = [], pf_query = DenseQuery [1, 2, 3], pf_using = ''dense'', pf_limit = 100,
       pf_with_payload = True\<rparr>,
      \<lparr>pf_prefetch = [], pf_query = SparseQuery \<lparr>indices = [1, 2], values = [2, 1]\<rparr>,
       pf_using = ''sparse'', pf_limit = 150, pf_with_payload = True\<rparr>,
      \<lparr>pf_prefetch = [], pf_query = SparseQuery \<lparr>indices = [2], values = [1]\<rparr>,
       pf_using = ''sparse'', pf_limit = 100, pf_with_payload = True\<rparr>]"

section \<open>What the tokenizer leaves untouched\<close>

lemma loadVocabulary_world:
  "remote_log (snd (loadVocabulary E tk w)) = remote_log w"
  "sleeps (snd (loadVocabulary E tk w)) = sleeps w"
  "files (snd (loadVocabulary E tk w)) = files w"
  "dirs (snd (loadVocabulary E tk w)) = dirs w"
  "nlp_calls (snd (loadVocabulary E tk w)) = nlp_calls w"
  by (auto simp: loadVocabulary_def load_failed_def Let_def split: option.splits file_content.splits)

lemma new_BM25Tokenizer_world:
  "remote_log (snd (new_BM25Tokenizer E p w)) = remote_log w"
  "sleeps (snd (new_BM25Tokenizer E p w)) = sleeps w"
  "files (snd (new_BM25Tokenizer E p w)) = files w"
  "dirs (snd (new_BM25Tokenizer E p w)) = dirs w"
  "nlp_calls (snd (new_BM25Tokenizer E p w)) = nlp_calls w"
  by (simp_all add: new_BM25Tokenizer_def Let_def loadVocabulary_world)

lemma getTokenizer_world:
  "remote_log (snd (snd (getTokenizer E name db w))) = remote_log w"
  "sleeps (snd (snd (getTokenizer E name db w))) = sleeps w"
  "files (snd (snd (getTokenizer E name db w))) = files w"
  "dirs (snd (snd (getTokenizer E name db w))) = dirs w"
  "nlp_calls (snd (snd (getTokenizer E name db w))) = nlp_calls w"
  "client (fst (snd (getTokenizer E name db w))) = client db"
  "config (fst (snd (getTokenizer E name db w))) = config db"
  by (simp_all add: getTokenizer_def Let_def split_beta new_BM25Tokenizer_world split: option.splits)

lemma generateSparseVector_world:
  "remote_log (snd (snd (generateSparseVector E text tk w))) = remote_log w"
  "sleeps (snd (snd (generateSparseVector E text tk w))) = sleeps w"
  "files (snd (snd (generateSparseVector E text tk w))) = files w"
  "dirs (snd (snd (generateSparseVector E text tk w))) = dirs w"
  "console (snd (snd (generateSparseVector E text tk w))) = console w"
  by (simp_all add: generateSparseVector_def tokenize_def Let_def split_beta)

lemma encode_for_world:
  "remote_log (snd (snd (encode_for E name text db w))) = remote_log w"
  "sleeps (snd (snd (encode_for E name text db w))) = sleeps w"
  "files (snd (snd (encode_for E name text db w))) = files w"
  "dirs (snd (snd (encode_for E name text db w))) = dirs w"
  "client (fst (snd (encode_for E name text db w))) = client db"
  "config (fst (snd (encode_for E name text db w))) = config db"
  by (simp_all add: encode_for_def Let_def split_beta generateSparseVector_world getTokenizer_world)

lemma build_points_world:
  "remote_log (snd (snd (build_points E name docs i db w))) = remote_log w
   \<and> sleeps (snd (snd (build_points E name docs i db w))) = sleeps w
   \<and> files (snd (snd (build_points E name docs i db w))) = files w
   \<and> dirs (snd (snd (build_points E name docs i db w))) = dirs w"
proof (induction docs arbitrary: i db w)
  case Nil
  show ?case by simp
next
  case (Cons doc rest)
  show ?case
  proof (cases "doc_vector doc")
    case NotArray
    then show ?thesis by simp
  next
    case (Arr v)
    obtain sv db1 w1 where e: "encode_for E name (doc_content doc) db w = (sv, db1, w1)"
      by (cases "encode_for E name (doc_content doc) db w") auto
    have w1: "remote_log w1 = remote_log w" "sleeps w1 = sleeps w" "files w1 = files w" "dirs w1 = dirs w"
      using encode_for_world(1,2,3,4)[of E name "doc_content doc" db w] e by simp_all
    obtain r db2 w2 where b: "build_points E name rest (i + 1) db1 w1 = (r, db2, w2)"
      by (cases "build_points E name rest (i + 1) db1 w1") auto
    have "remote_log w2 = remote_log w1 \<and> sleeps w2 = sleeps w1 \<and> files w2 = files w1 \<and> dirs w2 = dirs w1"
      using Cons.IH[of "i + 1" db1 w1] b by simp
    with w1 Arr e b show ?thesis by (cases r) (simp_all add: Let_def)
  qed
qed

lemma saveVocabulary_world:
  "remote_log (saveVocabulary E tk w) = remote_log w"
  "sleeps (saveVocabulary E tk w) = sleeps w"
  by (simp_all add: saveVocabulary_def Let_def split: option.splits)

lemma build_points_first_bad:
  "\<exists>d\<in>set docs. bad_vector d \<Longrightarrow>
   fst (build_points E name docs i db w)
   = Inl (validation_error (i + first_bad docs) (docs ! first_bad docs))"
proof (induction docs arbitrary: i db w)
  case Nil
  then show ?case by simp
next
  case (Cons doc rest)
  show ?case
  proof (cases "bad_vector doc")
    case True
    then show ?thesis
      by (cases "doc_vector doc") (simp_all add: bad_vector_def first_bad_def validation_error_def)
  next
    case False
    then obtain v where v: "doc_vector doc = Arr v" "length v \<noteq> 0"
      by (cases "doc_vector doc") (auto simp: bad_vector_def)
    from False Cons.prems have ex: "\<exists>d\<in>set rest. bad_vector d" by auto
    obtain sv db1 w1 where e: "encode_for E name (doc_content doc) db w = (sv, db1, w1)"
      by (cases "encode_for E name (doc_content doc) db w") auto
    obtain r db2 w2 where b: "build_points E name rest (i + 1) db1 w1 = (r, db2, w2)"
      by (cases "build_points E name rest (i + 1) db1 w1") auto
    have "r = Inl (validation_error (i + 1 + first_bad rest) (rest ! first_bad rest))"
      using Cons.IH[OF ex, of "i + 1" db1 w1] b by simp
    moreover have "first_bad (doc # rest) = Suc (first_bad rest)"
      using False by (simp add: first_bad_def)
    ultimately show ?thesis using v e b by (simp add: Let_def)
  qed
qed

section \<open>The paths of insertHybrid\<close>

lemma after_upsert_other:
  "result \<noteq> Some ''acknowledged'' \<Longrightarrow> result \<noteq> Some ''completed'' \<Longrightarrow>
   after_upsert E name result db w = (db, w\<lparr>console := console w @ [Warn]\<rparr>)"
  by (simp add: after_upsert_def)

lemma after_upsert_log:
  "result = Some ''acknowledged'' \<or> result = Some ''completed'' \<Longrightarrow>
   remote_log (snd (after_upsert E name result db w)) = remote_log w @ [GetCollection name]"
  by (cases "remote_getCollection E (remote_log w) name")
     (auto simp add: after_upsert_def Let_def split_beta client_getCollection_def saveVocabulary_world
       getTokenizer_world)

text \<open>
  On an initialised database and a batch that is not empty: either the insert throws
  before anything is saved, or the upsert returned and the insert returns normally.
\<close>

lemma insertHybrid_paths:
  assumes "client db" and "documents \<noteq> []"
  shows "(\<exists>e db' w'. insertHybrid E name documents db w = (Inl e, db', w')
            \<and> files w' = files w \<and> dirs w' = dirs w
            \<and> (remote_log w' = remote_log w @ [GetCollection name]
                \<or> remote_log w' = remote_log w @ [GetCollection name, GetCollection name]
                \<or> (\<exists>pts. remote_log w' = remote_log w @ [GetCollection name, GetCollection name, Upsert name pts]
                     \<and> remote_upsert E (remote_log w @ [GetCollection name, GetCollection name]) name pts = Inl e)))
       \<or> (\<exists>pts result db3 w4.
            remote_upsert E (remote_log w @ [GetCollection name, GetCollection name]) name pts = Inr result
            \<and> insertHybrid E name documents db w
              = (Inr (), fst (after_upsert E name result db3 w4), snd (after_upsert E name result db3 w4))
            \<and> remote_log w4 = remote_log w @ [GetCollection name, GetCollection name, Upsert name pts]
            \<and> files w4 = files w \<and> dirs w4 = dirs w)"
proof -
  let ?w1 = "w\<lparr>remote_log := remote_log w @ [GetCollection name]\<rparr>"
  let ?w2 = "?w1\<lparr>remote_log := remote_log ?w1 @ [GetCollection name]\<rparr>"
  from assms(2) have ne: "length documents \<noteq> 0" by auto
  have init: "ensureInitialized db = Inr ()" using assms(1) by (simp add: ensureInitialized_def)
  show ?thesis
  proof (cases "remote_getCollection E (remote_log w) name")
    case (Inl e1)
    then have "insertHybrid E name documents db w
        = insert_failed (Error (''Collection '' @ [CHR 0x27] @ name @ [CHR 0x27] @ '' does not exist'')) db ?w1"
      using ne init by (simp add: insertHybrid_def hasCollection_def client_getCollection_def)
    then show ?thesis by (simp add: insert_failed_def)
  next
    case i1: (Inr i1)
    show ?thesis
    proof (cases "remote_getCollection E (remote_log w @ [GetCollection name]) name")
      case (Inl e2)
      with i1 have "insertHybrid E name documents db w = insert_failed e2 db ?w2"
        using ne init by (simp add: insertHybrid_def hasCollection_def client_getCollection_def)
      then show ?thesis by (simp add: insert_failed_def)
    next
      case i2: (Inr i2)
      show ?thesis
      proof (cases "hasSparseName i2")
        case False
        with i1 i2 have "\<exists>e. insertHybrid E name documents db w = insert_failed e db ?w2"
          using ne init by (auto simp add: insertHybrid_def hasCollection_def client_getCollection_def)
        then show ?thesis by (auto simp add: insert_failed_def)
      next
        case True
        obtain r db3 w3 where b: "build_points E name documents 0 db ?w2 = (r, db3, w3)"
          by (cases "build_points E name documents 0 db ?w2") auto
        have w3: "remote_log w3 = remote_log w @ [GetCollection name, GetCollection name]"
          "files w3 = files w" "dirs w3 = dirs w"
          using build_points_world[of E name documents 0 db ?w2] b by simp_all
        show ?thesis
        proof (cases r)
          case (Inl e)
          with True i1 i2 b have "insertHybrid E name documents db w = insert_failed e db3 w3"
            using ne init by (simp add: insertHybrid_def hasCollection_def client_getCollection_def)
          with w3 show ?thesis by (simp add: insert_failed_def)
        next
          case (Inr pts)
          let ?w4 = "w3\<lparr>remote_log := remote_log w3 @ [Upsert name pts]\<rparr>"
          show ?thesis
          proof (cases "remote_upsert E (remote_log w3) name pts")
            case (Inl e)
            with Inr True i1 i2 b have "insertHybrid E name documents db w = insert_failed e db3 ?w4"
              using ne init
              by (simp add: insertHybrid_def hasCollection_def client_getCollection_def client_upsert_def)
            with w3 Inl show ?thesis by (simp add: insert_failed_def)
          next
            case res: (Inr result)
            with Inr True i1 i2 b have "insertHybrid E name documents db w
                = (Inr (), fst (after_upsert E name result db3 ?w4), snd (after_upsert E name result db3 ?w4))"
              using ne init
              by (simp add: insertHybrid_def hasCollection_def client_getCollection_def client_upsert_def
                  split_beta)
            with w3 res show ?thesis
              by (intro disjI2 exI[of _ pts] exI[of _ result] exI[of _ db3] exI[of _ ?w4]) simp
          qed
        qed
      qed
    qed
  qed
qed

lemmas insert_eval =
  insertHybrid_def hasCollection_def ensureInitialized_def client_getCollection_def
  client_upsert_def new_QdrantVectorDatabase_def initialize_def hybrid_env_def failing_disk_def
  world0_def hasSparseName_def sample_doc_def after_upsert_def encode_for_def getTokenizer_def
  new_BM25Tokenizer_def loadVocabulary_def existsSync_def truthy_str_def plain_config_def
  getVocabularyPathFromCollection_def last_segment_def generateSparseVector_def trim_def is_ws_def
  tokenize_def word_token_def term_freqs_def count_term_def num_or_def nullish_or_def
  hybrid_payload_def from_entries_def saveVocabulary_def dirname_def Let_def

section \<open>Term frequencies and index assignment\<close>

lemma trim_empty_iff: "length (trim text) = 0 \<longleftrightarrow> (\<forall>c\<in>set text. is_ws c)"
proof -
  have "dropWhile is_ws text = [] \<longleftrightarrow> (\<forall>c\<in>set text. is_ws c)"
    by (simp add: dropWhile_eq_Nil_conv)
  moreover have "(\<forall>c\<in>set (dropWhile is_ws text). is_ws c) \<longleftrightarrow> dropWhile is_ws text = []"
  proof
    assume a: "\<forall>c\<in>set (dropWhile is_ws text). is_ws c"
    show "dropWhile is_ws text = []"
    proof (rule ccontr)
      assume n: "dropWhile is_ws text \<noteq> []"
      then have "\<not> is_ws (hd (dropWhile is_ws text))" by (rule hd_dropWhile)
      moreover from n have "hd (dropWhile is_ws text) \<in> set (dropWhile is_ws text)" by simp
      ultimately show False using a by blast
    qed
  next
    assume e: "dropWhile is_ws text = []"
    show "\<forall>c\<in>set (dropWhile is_ws text). is_ws c" unfolding e by simp
  qed
  moreover have "length (trim text) = 0 \<longleftrightarrow> (\<forall>c\<in>set (dropWhile is_ws text). is_ws c)"
    by (simp add: trim_def dropWhile_eq_Nil_conv)
  ultimately show ?thesis by blast
qed

lemma map_get_map_set: "map_get (map_set tbl k v) k' = (if k' = k then Some v else map_get tbl k')"
  by (induction tbl) auto

lemma map_fst_map_set:
  "map fst (map_set tbl k v) = (if map_get tbl k = None then map fst tbl @ [k] else map fst tbl)"
  by (induction tbl) (auto split: if_splits)

lemma map_set_values:
  "distinct (map fst tbl) \<Longrightarrow>
   map_set tbl k v = (if map_get tbl k = None then tbl @ [(k, v)]
                    else map (\<lambda>(k', v'). if k' = k then (k, v) else (k', v')) tbl)"
proof (induction tbl)
  case Nil
  show ?case by simp
next
  case (Cons a tbl)
  obtain k0 v0 where a: "a = (k0, v0)" by (cases a)
  have "k0 \<notin> fst ` set tbl" using Cons.prems a by simp
  then have same: "k0 = k \<Longrightarrow> map (\<lambda>(k', v'). if k' = k then (k, v) else (k', v')) tbl = tbl"
    by (induction tbl) (auto simp: image_iff)
  show ?case using Cons a same by auto
qed

lemma distinct_tokens_snoc:
  "distinct_tokens (ts @ [t]) = (if t \<in> set ts then distinct_tokens ts else distinct_tokens ts @ [t])"
  by (simp add: distinct_tokens_def)

lemma set_distinct_tokens: "set (distinct_tokens ts) = set ts"
  by (simp add: distinct_tokens_def)

lemma distinct_distinct_tokens: "distinct (distinct_tokens ts)"
  by (simp add: distinct_tokens_def)

lemma term_freqs_snoc: "term_freqs (ts @ [t]) = count_term (term_freqs ts) t"
  by (simp add: term_freqs_def)

lemma term_freqs_eq:
  "term_freqs tokens = map (\<lambda>t. (t, int (count_list tokens t))) (distinct_tokens tokens)"
proof (induction tokens rule: rev_induct)
  case Nil
  show ?case by (simp add: term_freqs_def distinct_tokens_def)
next
  case (snoc t ts)
  let ?tf = "map (\<lambda>u. (u, int (count_list ts u))) (distinct_tokens ts)"
  have d: "distinct (map fst ?tf)" by (simp add: comp_def distinct_distinct_tokens)
  have get: "map_get ?tf t = (if t \<in> set ts then Some (int (count_list ts t)) else None)"
  proof -
    have "\<And>ds. map_get (map (\<lambda>u. (u, int (count_list ts u))) ds) t
        = (if t \<in> set ds then Some (int (count_list ts t)) else None)"
      subgoal for ds by (induction ds) auto
      done
    then show ?thesis by (simp add: set_distinct_tokens)
  qed
  show ?case
  proof (cases "t \<in> set ts")
    case False
    then have "count_list ts t = 0" by (simp add: count_list_0_iff)
    with False get d snoc show ?thesis
      by (auto simp add: term_freqs_snoc count_term_def map_set_values num_or_def distinct_tokens_snoc
          set_distinct_tokens)
  next
    case True
    then have pos: "count_list ts t \<noteq> 0" by (simp add: count_list_0_iff)
    have "map (\<lambda>(k', v'). if k' = t then (t, int (count_list ts t) + 1) else (k', v')) ?tf
        = map (\<lambda>u. (u, int (count_list (ts @ [t]) u))) (distinct_tokens ts)"
      by auto
    with True get d snoc pos show ?thesis
      by (simp add: term_freqs_snoc count_term_def map_set_values num_or_def distinct_tokens_snoc)
  qed
qed

lemma map_get_None_iff: "map_get tbl k = None \<longleftrightarrow> k \<notin> fst ` set tbl"
  by (induction tbl) (auto split: if_splits)

lemma map_get_Some_mem: "map_get tbl k = Some v \<Longrightarrow> (k, v) \<in> set tbl"
  by (induction tbl) (auto split: if_splits)

lemma map_get_distinct: "distinct (map fst tbl) \<Longrightarrow> (k, v) \<in> set tbl \<Longrightarrow> map_get tbl k = Some v"
  by (induction tbl) (auto simp: image_iff)

lemma map_set_absent: "map_get tbl k = None \<Longrightarrow> map_set tbl k v = tbl @ [(k, v)]"
  by (induction tbl) (auto split: if_splits)

lemma assign_indices_keeps:
  "map_get (vocabulary tk) k = Some i \<Longrightarrow>
   map_get (vocabulary (snd (snd (assign_indices tfs tk is vs)))) k = Some i"
proof (induction tfs arbitrary: tk "is" vs)
  case Nil
  then show ?case by simp
next
  case (Cons a rest)
  obtain word tf where a: "a = (word, tf)" by (cases a)
  show ?case
  proof (cases "map_get (vocabulary tk) word")
    case None
    with Cons.prems have "k \<noteq> word" by auto
    with Cons.prems have
      "map_get (vocabulary (tk\<lparr>vocabulary := map_set (vocabulary tk) word (nextIndex tk),
                                nextIndex := nextIndex tk + 1\<rparr>)) k = Some i"
      by (simp add: map_get_map_set)
    from Cons.IH[OF this] None a show ?thesis by simp
  next
    case (Some index)
    with Cons.IH[OF Cons.prems] a show ?thesis by simp
  qed
qed

lemma assign_indices_result:
  "assign_indices tfs tk is vs = (is', vs', tk') \<Longrightarrow>
   vs' = vs @ map snd tfs
   \<and> (\<exists>js. is' = is @ js \<and> map Some js = map (map_get (vocabulary tk')) (map fst tfs))
   \<and> vocabularyPath tk' = vocabularyPath tk"
proof (induction tfs arbitrary: tk "is" vs)
  case Nil
  then show ?case by simp
next
  case (Cons a rest)
  obtain word tf where a: "a = (word, tf)" by (cases a)
  show ?case
  proof (cases "map_get (vocabulary tk) word")
    case None
    let ?tk1 = "tk\<lparr>vocabulary := map_set (vocabulary tk) word (nextIndex tk), nextIndex := nextIndex tk + 1\<rparr>"
    from Cons.prems None a have run: "assign_indices rest ?tk1 (is @ [nextIndex tk]) (vs @ [tf]) = (is', vs', tk')"
      by simp
    from Cons.IH[OF run] obtain js where js: "vs' = (vs @ [tf]) @ map snd rest"
      "is' = (is @ [nextIndex tk]) @ js" "map Some js = map (map_get (vocabulary tk')) (map fst rest)"
      "vocabularyPath tk' = vocabularyPath ?tk1" by blast
    have "map_get (vocabulary ?tk1) word = Some (nextIndex tk)" by (simp add: map_get_map_set)
    from assign_indices_keeps[OF this, of rest "is @ [nextIndex tk]" "vs @ [tf]"] run
    have "map_get (vocabulary tk') word = Some (nextIndex tk)" by simp
    with js a show ?thesis by (intro conjI exI[of _ "nextIndex tk # js"]) simp_all
  next
    case (Some index)
    from Cons.prems Some a have run: "assign_indices rest tk (is @ [index]) (vs @ [tf]) = (is', vs', tk')"
      by simp
    from Cons.IH[OF run] obtain js where js: "vs' = (vs @ [tf]) @ map snd rest"
      "is' = (is @ [index]) @ js" "map Some js = map (map_get (vocabulary tk')) (map fst rest)"
      "vocabularyPath tk' = vocabularyPath tk" by blast
    from assign_indices_keeps[OF Some, of rest "is @ [index]" "vs @ [tf]"] run
    have "map_get (vocabulary tk') word = Some index" by simp
    with js a show ?thesis by (intro conjI exI[of _ "index # js"]) simp_all
  qed
qed

lemma assign_indices_inv:
  "vocab_inv tk \<Longrightarrow> vocab_inv (snd (snd (assign_indices tfs tk is vs)))
     \<and> nextIndex tk \<le> nextIndex (snd (snd (assign_indices tfs tk is vs)))"
proof (induction tfs arbitrary: tk "is" vs)
  case Nil
  then show ?case by simp
next
  case (Cons a rest)
  obtain word tf where a: "a = (word, tf)" by (cases a)
  show ?case
  proof (cases "map_get (vocabulary tk) word")
    case None
    let ?tk1 = "tk\<lparr>vocabulary := map_set (vocabulary tk) word (nextIndex tk), nextIndex := nextIndex tk + 1\<rparr>"
    from None have "word \<notin> fst ` set (vocabulary tk)" by (simp add: map_get_None_iff)
    moreover from Cons.prems have "nextIndex tk \<notin> snd ` set (vocabulary tk)"
      by (auto simp: vocab_inv_def)
    ultimately have "vocab_inv ?tk1" 
      using Cons.prems None by (auto simp: vocab_inv_def map_set_absent)
    from Cons.IH[OF this, of "is @ [nextIndex tk]" "vs @ [tf]"] None a show ?thesis by simp
  next
    case (Some index)
    with Cons.IH[OF Cons.prems, of "is @ [index]" "vs @ [tf]"] a show ?thesis by simp
  qed
qed

lemma generateSparseVector_blank:
  "\<forall>c\<in>set text. is_ws c \<Longrightarrow>
   generateSparseVector E text tk w = (\<lparr>indices = [], values = []\<rparr>, tk, w)"
  using trim_empty_iff[of "text"] by (simp add: generateSparseVector_def)

lemma generateSparseVector_tokens:
  assumes "\<not> (\<forall>c\<in>set text. is_ws c)"
    and "generateSparseVector E text tk w = (sv, tk', w')"
  shows "values sv = map (\<lambda>t. int (count_list (fst (tokenize E text w)) t))
                       (distinct_tokens (fst (tokenize E text w)))"
    and "map Some (indices sv) = map (map_get (vocabulary tk')) (distinct_tokens (fst (tokenize E text w)))"
    and "nlp_calls w' = nlp_calls w @ [text]"
    and "\<And>k i. map_get (vocabulary tk) k = Some i \<Longrightarrow> map_get (vocabulary tk') k = Some i"
    and "vocabularyPath tk' = vocabularyPath tk"
proof -
  let ?tokens = "fst (tokenize E text w)"
  let ?w1 = "snd (tokenize E text w)"
  let ?tf = "term_freqs ?tokens"
  from assms(1) have ne: "text \<noteq> []" "length (trim text) \<noteq> 0"
    using trim_empty_iff[of "text"] by auto
  have tfs: "?tf = map (\<lambda>t. (t, int (count_list ?tokens t))) (distinct_tokens ?tokens)"
    by (rule term_freqs_eq)
  have w1: "nlp_calls ?w1 = nlp_calls w @ [text]" by (simp add: tokenize_def)
  obtain is' vs' tk1 where run: "assign_indices ?tf tk [] [] = (is', vs', tk1)"
    by (cases "assign_indices ?tf tk [] []") auto
  have res: "generateSparseVector E text tk w = (\<lparr>indices = is', values = vs'\<rparr>, tk1, ?w1)"
  proof (cases "length ?tf = 0")
    case True
    with run have "is' = []" "vs' = []" "tk1 = tk" by simp_all
    with True ne show ?thesis by (simp add: generateSparseVector_def split_beta Let_def)
  next
    case False
    with ne run show ?thesis by (simp add: generateSparseVector_def split_beta Let_def)
  qed
  with assms(2) have eq: "sv = \<lparr>indices = is', values = vs'\<rparr>" "tk' = tk1" "w' = ?w1" by simp_all
  from assign_indices_result[OF run] obtain js where js: "vs' = map snd ?tf"
    "is' = js" "map Some js = map (map_get (vocabulary tk1)) (map fst ?tf)"
    "vocabularyPath tk1 = vocabularyPath tk" by auto
  have fsts: "map fst ?tf = distinct_tokens ?tokens"
    by (subst tfs) (simp add: comp_def)
  have snds: "map snd ?tf = map (\<lambda>t. int (count_list ?tokens t)) (distinct_tokens ?tokens)"
    by (subst tfs) (simp add: comp_def)
  show "values sv = map (\<lambda>t. int (count_list ?tokens t)) (distinct_tokens ?tokens)"
    using eq js snds by simp
  show "map Some (indices sv) = map (map_get (vocabulary tk')) (distinct_tokens ?tokens)"
    using eq js fsts by simp
  show "nlp_calls w' = nlp_calls w @ [text]" using eq w1 by simp
  show "vocabularyPath tk' = vocabularyPath tk" using eq js by simp
  show "\<And>k i. map_get (vocabulary tk) k = Some i \<Longrightarrow> map_get (vocabulary tk') k = Some i"
    using assign_indices_keeps[of tk _ _ ?tf "[]" "[]"] run eq by simp
qed

lemmas encode_eval =
  generateSparseVector_def trim_def is_ws_def tokenize_def word_token_def term_freqs_def count_term_def
  num_or_def nullish_or_def hybrid_env_def world0_def fresh_tokenizer_def Let_def

section \<open>Saving and loading\<close>

lemma from_entries_distinct:
  "distinct (map fst es) \<Longrightarrow> from_entries es = es"
proof -
  have "\<And>acc. distinct (map fst (acc @ es)) \<Longrightarrow> foldl (\<lambda>tbl (k, v). map_set tbl k v) acc es = acc @ es"
  proof (induction es)
    case Nil
    show ?case by simp
  next
    case (Cons a es)
    obtain k v where a: "a = (k, v)" by (cases a)
    from Cons.prems a have "k \<notin> fst ` set acc" by auto
    then have "map_set acc k v = acc @ [(k, v)]"
      by (simp add: map_set_absent map_get_None_iff)
    moreover from Cons.prems have "distinct (map fst ((acc @ [a]) @ es))" by simp
    ultimately show ?case using Cons.IH[of "acc @ [a]"] a by simp
  qed
  from this[of "[]"] show "distinct (map fst es) \<Longrightarrow> from_entries es = es"
    by (simp add: from_entries_def)
qed

lemma saveVocabulary_written:
  assumes "vocabularyPath tk = Some p" "p \<noteq> []" "console (saveVocabulary E tk w) = console w"
  shows "files (saveVocabulary E tk w) p
         = Some (JsonDoc \<lparr>j_vocabulary = Some (from_entries (vocabulary tk)),
                          j_nextIndex = Some (nextIndex tk), j_timestamp = Some (now_iso E)\<rparr>)"
  using assms by (auto simp add: saveVocabulary_def Let_def split: if_splits)

lemma reload_after_save:
  assumes "vocabularyPath tk = Some p" "p \<noteq> []"
    and "distinct (map fst (vocabulary tk))" "nextIndex tk = 0 \<longrightarrow> vocabulary tk = []"
    and "console (saveVocabulary E tk w) = console w" "\<not> fs_fails E (ReadFile p)"
  shows "new_BM25Tokenizer E (Some p) (saveVocabulary E tk w)
         = (\<lparr>vocabulary = vocabulary tk, nextIndex = nextIndex tk, vocabularyPath = Some p\<rparr>,
            saveVocabulary E tk w)"
proof -
  let ?w1 = "saveVocabulary E tk w"
  have f: "files ?w1 p = Some (JsonDoc \<lparr>j_vocabulary = Some (vocabulary tk),
                          j_nextIndex = Some (nextIndex tk), j_timestamp = Some (now_iso E)\<rparr>)"
    using saveVocabulary_written[OF assms(1,2,5)] assms(3) by (simp add: from_entries_distinct)
  have n: "num_or (Some (nextIndex tk)) (int (length (vocabulary tk))) = nextIndex tk"
    using assms(4) by (auto simp add: num_or_def)
  show ?thesis
    using f n assms(2,3,6)
    by (simp add: new_BM25Tokenizer_def truthy_str_def loadVocabulary_def existsSync_def Let_def
        from_entries_distinct)
qed

lemma load_missing:
  "p \<noteq> [] \<Longrightarrow> \<not> existsSync w p \<Longrightarrow>
   new_BM25Tokenizer E (Some p) w = (\<lparr>vocabulary = [], nextIndex = 0, vocabularyPath = Some p\<rparr>, w)"
  by (simp add: new_BM25Tokenizer_def truthy_str_def loadVocabulary_def)

lemma load_corrupt:
  "p \<noteq> [] \<Longrightarrow> existsSync w p \<Longrightarrow>
   fs_fails E (ReadFile p) \<or> files w p = None \<or> files w p = Some NotJson
     \<or> (\<exists>d. files w p = Some (JsonDoc d) \<and> j_vocabulary d = None) \<Longrightarrow>
   new_BM25Tokenizer E (Some p) w
   = (\<lparr>vocabulary = [], nextIndex = 0, vocabularyPath = Some p\<rparr>, w\<lparr>console := console w @ [Warn]\<rparr>)"
  by (auto simp add: new_BM25Tokenizer_def truthy_str_def loadVocabulary_def load_failed_def Let_def)

lemma saveVocabulary_writes:
  assumes "vocabularyPath tk = Some p" "p \<noteq> []" "writable E w p"
  shows "console (saveVocabulary E tk w) = console w"
    and "files (saveVocabulary E tk w)
         = (files w)(p \<mapsto> JsonDoc \<lparr>j_vocabulary = Some (from_entries (vocabulary tk)),
                                     j_nextIndex = Some (nextIndex tk), j_timestamp = Some (now_iso E)\<rparr>)"
  using assms by (auto simp add: saveVocabulary_def writable_def Let_def)

lemmas disk_eval =
  saveVocabulary_def dirname_def existsSync_def hybrid_env_def world0_def sample_tokenizer_def
  from_entries_def Let_def

section \<open>What an encode keeps\<close>

lemma generateSparseVector_keeps:
  "map_get (vocabulary tk) k = Some i \<Longrightarrow>
   map_get (vocabulary (fst (snd (generateSparseVector E text tk w)))) k = Some i"
  using assign_indices_keeps[of tk k i "term_freqs (fst (tokenize E text w))" "[]" "[]"]
  by (simp add: generateSparseVector_def split_beta Let_def)

lemma generateSparseVector_inv:
  "vocab_inv tk \<Longrightarrow>
   vocab_inv (fst (snd (generateSparseVector E text tk w)))
   \<and> nextIndex tk \<le> nextIndex (fst (snd (generateSparseVector E text tk w)))"
  using assign_indices_inv[of tk "term_freqs (fst (tokenize E text w))" "[]" "[]"]
  by (simp add: generateSparseVector_def split_beta Let_def)

lemma zip_lookup:
  assumes "map Some js = map f ds" "t \<in> set ds" "f t = Some i"
  shows "(t, i) \<in> set (zip ds js)"
proof -
  from assms(2) obtain n where n: "n < length ds" "ds ! n = t" by (auto simp: in_set_conv_nth)
  from arg_cong[OF assms(1), of length] have len: "length js = length ds" by simp
  from arg_cong[OF assms(1), of "\<lambda>xs. xs ! n"] n len assms(3) have "js ! n = i" by simp
  with n len show ?thesis by (auto simp: in_set_zip)
qed

lemma vocab_inv_counter: "vocab_inv tk \<Longrightarrow> nextIndex tk = 0 \<longrightarrow> vocabulary tk = []"
  by (cases "vocabulary tk") (auto simp: vocab_inv_def)

lemma first_session_eq:
  "first_session
   = (\<lparr>indices = [0], values = [1]\<rparr>,
      \<lparr>vocabulary = [(''cc'', 0)], nextIndex = 1, vocabularyPath = Some ''/v/vocabulary-ab12.json''\<rparr>,
      world0\<lparr>nlp_calls := [''cc'']\<rparr>)"
  by (simp add: first_session_def query_env_def new_BM25Tokenizer_def loadVocabulary_def existsSync_def
      truthy_str_def encode_eval)

section \<open>The prefetch loop\<close>

lemma build_prefetch_log:
  "remote_log (snd (snd (build_prefetch E name reqs db w))) = remote_log w"
proof (induction reqs arbitrary: db w)
  case Nil
  show ?case by simp
next
  case (Cons request rest)
  show ?case
  proof (cases "is_dense request")
    case True
    with Cons.IH[of db w] show ?thesis by (simp add: is_dense_def split_beta Let_def)
  next
    case False
    let ?e = "encode_for E name (case hs_data request of TextData t \<Rightarrow> t | _ \<Rightarrow> []) db w"
    from Cons.IH[of "fst (snd ?e)" "snd (snd ?e)"] False show ?thesis
      by (simp add: is_dense_def split_beta Let_def encode_for_world)
  qed
qed

lemma encode_for_vector:
  "fst (encode_for E name t db w)
   = fst (generateSparseVector E t (fst (tokenizer_at E name (db, w))) (snd (tokenizer_at E name (db, w))))"
  by (simp add: encode_for_def tokenizer_at_def split_beta Let_def)

lemma sparse_vector_eta: "\<lparr>indices = indices sv, values = values sv\<rparr> = sv"
  by (cases sv) simp

lemma build_prefetch_exact:
  "build_prefetch E name reqs db w = (pf, db1, w1) \<Longrightarrow>
   length pf = length reqs
   \<and> (db1, w1) = after_texts E name (lexical_texts reqs) db w
   \<and> (\<forall>j<length reqs.
        pf ! j
        = (if is_dense (reqs ! j)
           then \<lparr>pf_prefetch = [],
                 pf_query = DenseQuery (case hs_data (reqs ! j) of VectorData v \<Rightarrow> v | _ \<Rightarrow> []),
                 pf_using = ''dense'', pf_limit = max (hs_limit (reqs ! j) * 3) 100,
                 pf_with_payload = True\<rparr>
           else \<lparr>pf_prefetch = [],
                 pf_query = SparseQuery
                   (fst (encode_for E name (request_text (reqs ! j))
                      (fst (after_texts E name (lexical_texts (take j reqs)) db w))
                      (snd (after_texts E name (lexical_texts (take j reqs)) db w)))),
                 pf_using = ''sparse'', pf_limit = max (hs_limit (reqs ! j) * 3) 100,
                 pf_with_payload = True\<rparr>))"
proof (induction reqs arbitrary: db w pf db1 w1)
  case Nil
  then show ?case by (simp add: lexical_texts_def)
next
  case (Cons request rest)
  show ?case
  proof (cases "is_dense request")
    case True
    obtain more db2 w2 where r: "build_prefetch E name rest db w = (more, db2, w2)"
      by (cases "build_prefetch E name rest db w") auto
    let ?p = "\<lparr>pf_prefetch = [], pf_query = DenseQuery (case hs_data request of VectorData v \<Rightarrow> v | _ \<Rightarrow> []),
               pf_using = ''dense'', pf_limit = max (hs_limit request * 3) 100, pf_with_payload = True\<rparr>"
    from Cons.prems True r have pf: "pf = ?p # more" "db1 = db2" "w1 = w2"
      by (auto simp add: is_dense_def Let_def over_fetch_def)
    have lt: "lexical_texts (request # rest) = lexical_texts rest"
      "\<And>n. lexical_texts (take (Suc n) (request # rest)) = lexical_texts (take n rest)"
      using True by (simp_all add: lexical_texts_def)
    note ih = Cons.IH[OF r]
    show ?thesis
    proof (intro conjI allI impI)
      show "length pf = length (request # rest)" using pf ih by simp
      show "(db1, w1) = after_texts E name (lexical_texts (request # rest)) db w"
        using pf ih lt by simp
    next
      fix j assume j: "j < length (request # rest)"
      show "pf ! j
        = (if is_dense ((request # rest) ! j)
           then \<lparr>pf_prefetch = [],
                 pf_query = DenseQuery (case hs_data ((request # rest) ! j) of VectorData v \<Rightarrow> v | _ \<Rightarrow> []),
                 pf_using = ''dense'', pf_limit = max (hs_limit ((request # rest) ! j) * 3) 100,
                 pf_with_payload = True\<rparr>
           else \<lparr>pf_prefetch = [],
                 pf_query = SparseQuery
                   (fst (encode_for E name (request_text ((request # rest) ! j))
                      (fst (after_texts E name (lexical_texts (take j (request # rest))) db w))
                      (snd (after_texts E name (lexical_texts (take j (request # rest))) db w)))),
                 pf_using = ''sparse'', pf_limit = max (hs_limit ((request # rest) ! j) * 3) 100,
                 pf_with_payload = True\<rparr>)"
      proof (cases j)
        case 0
        with pf True show ?thesis by simp
      next
        case (Suc n)
        with j have "n < length rest" by simp
        with ih have "more ! n
          = (if is_dense (rest ! n)
           then \<lparr>pf_prefetch = [],
                 pf_query = DenseQuery (case hs_data (rest ! n) of VectorData v \<Rightarrow> v | _ \<Rightarrow> []),
                 pf_using = ''dense'', pf_limit = max (hs_limit (rest ! n) * 3) 100,
                 pf_with_payload = True\<rparr>
           else \<lparr>pf_prefetch = [],
                 pf_query = SparseQuery
                   (fst (encode_for E name (request_text (rest ! n))
                      (fst (after_texts E name (lexical_texts (take n rest)) db w))
                      (snd (after_texts E name (lexical_texts (take n rest)) db w)))),
                 pf_using = ''sparse'', pf_limit = max (hs_limit (rest ! n) * 3) 100,
                 pf_with_payload = True\<rparr>)" by blast
        with Suc pf lt(2)[of n] show ?thesis by simp
      qed
    qed
  next
    case False
    let ?text = "request_text request"
    obtain sv db0 w0 where e: "encode_for E name ?text db w = (sv, db0, w0)"
      by (cases "encode_for E name ?text db w") auto
    obtain more db2 w2 where r: "build_prefetch E name rest db0 w0 = (more, db2, w2)"
      by (cases "build_prefetch E name rest db0 w0") auto
    let ?p = "\<lparr>pf_prefetch = [], pf_query = SparseQuery sv,
               pf_using = ''sparse'', pf_limit = max (hs_limit request * 3) 100, pf_with_payload = True\<rparr>"
    from Cons.prems False e r have pf: "pf = ?p # more" "db1 = db2" "w1 = w2"
      by (auto simp add: is_dense_def Let_def over_fetch_def request_text_def sparse_vector_eta)
    have lt: "lexical_texts (request # rest) = ?text # lexical_texts rest"
      "\<And>n. lexical_texts (take (Suc n) (request # rest)) = ?text # lexical_texts (take n rest)"
      using False by (simp_all add: lexical_texts_def)
    have at: "\<And>ts. after_texts E name (?text # ts) db w = after_texts E name ts db0 w0"
      using e by simp
    note ih = Cons.IH[OF r]
    show ?thesis
    proof (intro conjI allI impI)
      show "length pf = length (request # rest)" using pf ih by simp
      show "(db1, w1) = after_texts E name (lexical_texts (request # rest)) db w"
        using pf ih lt(1) at by simp
    next
      fix j assume j: "j < length (request # rest)"
      show "pf ! j
        = (if is_dense ((request # rest) ! j)
           then \<lparr>pf_prefetch = [],
                 pf_query = DenseQuery (case hs_data ((request # rest) ! j) of VectorData v \<Rightarrow> v | _ \<Rightarrow> []),
                 pf_using = ''dense'', pf_limit = max (hs_limit ((request # rest) ! j) * 3) 100,
                 pf_with_payload = True\<rparr>
           else \<lparr>pf_prefetch = [],
                 pf_query = SparseQuery
                   (fst (encode_for E name (request_text ((request # rest) ! j))
                      (fst (after_texts E name (lexical_texts (take j (request # rest))) db w))
                      (snd (after_texts E name (lexical_texts (take j (request # rest))) db w)))),
                 pf_using = ''sparse'', pf_limit = max (hs_limit ((request # rest) ! j) * 3) 100,
                 pf_with_payload = True\<rparr>)"
      proof (cases j)
        case 0
        with pf False e show ?thesis by (simp add: lexical_texts_def)
      next
        case (Suc n)
        with j have "n < length rest" by simp
        with ih have "more ! n
          = (if is_dense (rest ! n)
           then \<lparr>pf_prefetch = [],
                 pf_query = DenseQuery (case hs_data (rest ! n) of VectorData v \<Rightarrow> v | _ \<Rightarrow> []),
                 pf_using = ''dense'', pf_limit = max (hs_limit (rest ! n) * 3) 100,
                 pf_with_payload = True\<rparr>
           else \<lparr>pf_prefetch = [],
                 pf_query = SparseQuery
                   (fst (encode_for E name (request_text (rest ! n))
                      (fst (after_texts E name (lexical_texts (take n rest)) db0 w0))
                      (snd (after_texts E name (lexical_texts (take n rest)) db0 w0)))),
                 pf_using = ''sparse'', pf_limit = max (hs_limit (rest ! n) * 3) 100,
                 pf_with_payload = True\<rparr>)" by blast
        with Suc pf lt(2)[of n] at[of "lexical_texts (take n rest)"] show ?thesis by simp
      qed
    qed
  qed
qed

lemmas thread_eval =
  threaded_requests_def registered_db_def lexical_texts_def request_text_def is_dense_def
  tokenizer_at_def getTokenizer_def encode_for_def sample_tokenizer_def query_env_def encode_eval

section \<open>The retry wrapper\<close>

lemma withRetry_loop_last_error:
  "attempt \<le> maxRetries \<Longrightarrow>
   withRetry_loop operation maxRetries attempt delay lastError w = (Inl t, w') \<Longrightarrow>
   \<exists>e w0. t = Thrown e \<and> operation w0 = (Inl e, w')"
proof (induction operation maxRetries attempt delay lastError w rule: withRetry_loop.induct)
  case (1 operation maxRetries attempt delay lastError w)
  show ?case
  proof (cases "operation w")
    case (Pair r w1)
    show ?thesis
    proof (cases r)
      case (Inr v)
      with Pair "1.prems" show ?thesis by simp
    next
      case (Inl e)
      show ?thesis
      proof (cases "is_terminal e \<or> attempt = maxRetries")
        case True
        with Pair Inl "1.prems" show ?thesis by auto
      next
        case False
        with Pair Inl "1.prems" have
          "withRetry_loop operation maxRetries (attempt + 1) (delay * 2) (Some e)
             (w1\<lparr>sleeps := sleeps w1 @ [delay]\<rparr>) = (Inl t, w')"
          by auto
        moreover from False "1.prems" have "attempt + 1 \<le> maxRetries" by auto
        ultimately show ?thesis
          using "1.IH"[OF _ Pair[symmetric]] Pair Inl False "1.prems"(1) by auto
      qed
    qed
  qed
qed

text \<open>
  Claim C3. In \<^verbatim>\<open>withRetry\<close>, at any attempt within the budget: a successful operation
  returns its value; a failure whose message contains \<^verbatim>\<open>already exists\<close> or
  \<^verbatim>\<open>not found\<close>, or a failure on the last allowed attempt, is thrown again at once, the
  world left as the operation left it (no timer awaited); any other failure awaits the
  current delay, doubles it and goes to the next attempt. With the defaults (3 attempts,
  1000 ms), two failures that are not terminal are followed by delays of 1000 and then
  2000 and the third attempt decides: its value is returned, or its error is thrown.
  Whatever \<^verbatim>\<open>withRetry\<close> throws with the defaults is the error of the attempt made last.
\<close>

theorem withRetry_contract:
  "(attempt \<le> maxRetries \<and> operation w = (Inr v, w1) \<longrightarrow>
      withRetry_loop operation maxRetries attempt delay lastError w = (Inr v, w1))
   \<and> (attempt \<le> maxRetries \<and> operation w = (Inl e, w1) \<and> (is_terminal e \<or> attempt = maxRetries) \<longrightarrow>
      withRetry_loop operation maxRetries attempt delay lastError w = (Inl (Thrown e), w1))
   \<and> (attempt < maxRetries \<and> operation w = (Inl e, w1) \<and> \<not> is_terminal e \<longrightarrow>
      withRetry_loop operation maxRetries attempt delay lastError w =
      withRetry_loop operation maxRetries (attempt + 1) (delay * 2) (Some e)
        (w1\<lparr>sleeps := sleeps w1 @ [delay]\<rparr>))
   \<and> (operation w = (Inl e1, w1) \<and> \<not> is_terminal e1
        \<and> operation (w1\<lparr>sleeps := sleeps w1 @ [1000]\<rparr>) = (Inl e2, w2) \<and> \<not> is_terminal e2
        \<and> operation (w2\<lparr>sleeps := sleeps w2 @ [2000]\<rparr>) = (r3, w3) \<longrightarrow>
      withRetry operation 3 1000 w = (case r3 of Inr v3 \<Rightarrow> Inr v3 | Inl e3 \<Rightarrow> Inl (Thrown e3), w3))
   \<and> (withRetry operation 3 1000 w = (Inl t, w') \<longrightarrow>
        (\<exists>el wl. t = Thrown el \<and> operation wl = (Inl el, w')))"
proof (intro conjI impI)
  assume "operation w = (Inl e1, w1) \<and> \<not> is_terminal e1
        \<and> operation (w1\<lparr>sleeps := sleeps w1 @ [1000]\<rparr>) = (Inl e2, w2) \<and> \<not> is_terminal e2
        \<and> operation (w2\<lparr>sleeps := sleeps w2 @ [2000]\<rparr>) = (r3, w3)"
  then show "withRetry operation 3 1000 w = (case r3 of Inr v3 \<Rightarrow> Inr v3 | Inl e3 \<Rightarrow> Inl (Thrown e3), w3)"
    by (cases r3) (simp_all add: withRetry_def)
next
  assume "withRetry operation 3 1000 w = (Inl t, w')"
  then show "\<exists>el wl. t = Thrown el \<and> operation wl = (Inl el, w')"
    unfolding withRetry_def using withRetry_loop_last_error[of 1 3 operation 1000 None w t w'] by simp
qed auto

text \<open>
  At concrete inputs: a service that fails twice with a transient error and then succeeds;
  one that fails three times; one that reports that the collection already exists.
\<close>

theorem withRetry_contract_witness:
  "withRetry
     (client_createCollection (scripted_env [Inl (Error ''socket hang up''), Inl (Error ''socket hang up'')])
        ''docs'' (collectionConfig plain_config 768)) 3 1000 world0
   = (Inr True,
      world0\<lparr>remote_log := replicate 3 (CreateCollection ''docs'' (collectionConfig plain_config 768)),
             sleeps := [1000, 2000]\<rparr>)
   \<and> withRetry
     (client_createCollection
        (scripted_env [Inl (Error ''socket hang up''), Inl (Error ''socket hang up''), Inl (Error ''timeout'')])
        ''docs'' (collectionConfig plain_config 768)) 3 1000 world0
   = (Inl (Thrown (Error ''timeout'')),
      world0\<lparr>remote_log := replicate 3 (CreateCollection ''docs'' (collectionConfig plain_config 768)),
             sleeps := [1000, 2000]\<rparr>)
   \<and> withRetry
     (client_createCollection (scripted_env [Inl (Error ''Collection docs already exists'')])
        ''docs'' (collectionConfig plain_config 768)) 3 1000 world0
   = (Inl (Thrown (Error ''Collection docs already exists'')),
      world0\<lparr>remote_log := [CreateCollection ''docs'' (collectionConfig plain_config 768)]\<rparr>)"
proof -
  let ?c = "CreateCollection ''docs'' (collectionConfig plain_config 768)"
  let ?e = "Error ''socket hang up''"
  let ?x = "Error ''timeout''"
  let ?op = "client_createCollection (scripted_env [Inl ?e, Inl ?e]) ''docs'' (collectionConfig plain_config 768)"
  let ?opX = "client_createCollection (scripted_env [Inl ?e, Inl ?e, Inl ?x]) ''docs'' (collectionConfig plain_config 768)"
  let ?t = "Error ''Collection docs already exists''"
  let ?opT = "client_createCollection (scripted_env [Inl ?t]) ''docs'' (collectionConfig plain_config 768)"
  let ?w1 = "world0\<lparr>remote_log := [?c]\<rparr>"
  let ?w2 = "world0\<lparr>remote_log := [?c, ?c], sleeps := [1000]\<rparr>"
  let ?w3 = "world0\<lparr>remote_log := [?c, ?c, ?c], sleeps := [1000, 2000]\<rparr>"
  have n: "\<not> is_terminal ?e" by (simp add: is_terminal_def)
  have y: "is_terminal ?t" by (simp add: is_terminal_def)
  have a: "?op world0 = (Inl ?e, ?w1)"
    "?op (world0\<lparr>remote_log := [?c], sleeps := [1000]\<rparr>) = (Inl ?e, ?w2)"
    "?op (world0\<lparr>remote_log := [?c, ?c], sleeps := [1000, 2000]\<rparr>) = (Inr True, ?w3)"
    by (simp_all add: client_createCollection_def scripted_env_def world0_def)
  have x: "?opX world0 = (Inl ?e, ?w1)"
    "?opX (world0\<lparr>remote_log := [?c], sleeps := [1000]\<rparr>) = (Inl ?e, ?w2)"
    "?opX (world0\<lparr>remote_log := [?c, ?c], sleeps := [1000, 2000]\<rparr>) = (Inl ?x, ?w3)"
    by (simp_all add: client_createCollection_def scripted_env_def world0_def)
  have b: "?opT world0 = (Inl ?t, ?w1)"
    by (simp add: client_createCollection_def scripted_env_def world0_def)
  have s: "?w1\<lparr>sleeps := sleeps ?w1 @ [1000]\<rparr> = world0\<lparr>remote_log := [?c], sleeps := [1000]\<rparr>"
    "?w2\<lparr>sleeps := sleeps ?w2 @ [2000]\<rparr> = world0\<lparr>remote_log := [?c, ?c], sleeps := [1000, 2000]\<rparr>"
    by (simp_all add: world0_def)
  have "withRetry ?op 3 1000 world0 = (Inr True, ?w3)"
    using withRetry_contract[where operation = ?op and w = world0 and ?e1.0 = ?e and ?e2.0 = ?e
        and ?w1.0 = ?w1 and ?w2.0 = ?w2 and ?r3.0 = "Inr True" and ?w3.0 = ?w3]
      n a s by simp
  moreover have "withRetry ?opX 3 1000 world0 = (Inl (Thrown ?x), ?w3)"
    using withRetry_contract[where operation = ?opX and w = world0 and ?e1.0 = ?e and ?e2.0 = ?e
        and ?w1.0 = ?w1 and ?w2.0 = ?w2 and ?r3.0 = "Inl ?x" and ?w3.0 = ?w3]
      n x s by simp
  moreover have "withRetry ?opT 3 1000 world0 = (Inl (Thrown ?t), ?w1)"
    using withRetry_contract[where operation = ?opT and w = world0 and e = ?t and attempt = 1
        and maxRetries = 3 and ?w1.0 = ?w1 and lastError = None and delay = 1000]
      y b by (simp add: withRetry_def del: withRetry_loop.simps)
  ultimately show ?thesis by (simp add: numeral_3_eq_3)
qed

section \<open>The collection payload\<close>

lemma createCollection_attempts:
  "attempt \<le> maxRetries \<Longrightarrow>
   \<exists>k. 1 \<le> k \<and> int k \<le> maxRetries + 1 - attempt \<and>
     remote_log (snd (withRetry_loop (client_createCollection E name cfg) maxRetries attempt delay lastError w))
     = remote_log w @ replicate k (CreateCollection name cfg)"
proof (induction "client_createCollection E name cfg" maxRetries attempt delay lastError w
    rule: withRetry_loop.induct)
  case (1 maxRetries attempt delay lastError w)
  let ?op = "client_createCollection E name cfg"
  let ?w1 = "w\<lparr>remote_log := remote_log w @ [CreateCollection name cfg]\<rparr>"
  have op: "?op w = (remote_createCollection E (remote_log w) name cfg, ?w1)"
    by (simp add: client_createCollection_def)
  show ?case
  proof (cases "remote_createCollection E (remote_log w) name cfg")
    case (Inr v)
    with op "1.prems" have
      "remote_log (snd (withRetry_loop ?op maxRetries attempt delay lastError w))
       = remote_log w @ replicate 1 (CreateCollection name cfg)" by simp
    with "1.prems" show ?thesis by (intro exI[of _ 1]) auto
  next
    case (Inl e)
    show ?thesis
    proof (cases "is_terminal e \<or> attempt = maxRetries")
      case True
      with Inl op "1.prems" have
        "remote_log (snd (withRetry_loop ?op maxRetries attempt delay lastError w))
         = remote_log w @ replicate 1 (CreateCollection name cfg)" by auto
      with "1.prems" show ?thesis by (intro exI[of _ 1]) auto
    next
      case False
      let ?w2 = "?w1\<lparr>sleeps := sleeps ?w1 @ [delay]\<rparr>"
      from False "1.prems" have le: "attempt + 1 \<le> maxRetries" by auto
      from "1.hyps"[OF "1.prems" op[symmetric] _ _ le, of e] Inl False
      obtain k where k: "1 \<le> k" "int k \<le> maxRetries + 1 - (attempt + 1)"
        "remote_log (snd (withRetry_loop ?op maxRetries (attempt + 1) (delay * 2) (Some e) ?w2))
         = remote_log ?w2 @ replicate k (CreateCollection name cfg)"
        by auto
      from False Inl op "1.prems" have
        "withRetry_loop ?op maxRetries attempt delay lastError w
         = withRetry_loop ?op maxRetries (attempt + 1) (delay * 2) (Some e) ?w2"
        by auto
      with k have "remote_log (snd (withRetry_loop ?op maxRetries attempt delay lastError w))
         = remote_log w @ replicate (Suc k) (CreateCollection name cfg)"
        by (simp add: replicate_append_same del: withRetry_loop.simps)
      with k show ?thesis by (intro exI[of _ "Suc k"]) auto
    qed
  qed
qed

lemma createCollection_sends:
  assumes "client db"
  shows "\<exists>k. 1 \<le> k \<and> k \<le> 3 \<and>
     remote_log (snd (createCollection E name dimension db w))
     = remote_log w @ replicate k (CreateCollection name (collectionConfig (config db) dimension))"
proof -
  let ?cfg = "collectionConfig (config db) dimension"
  let ?r = "withRetry_loop (client_createCollection E name ?cfg) 3 1 1000 None w"
  from createCollection_attempts[of 1 3 E name ?cfg 1000 None w]
  obtain k where k: "1 \<le> k" "int k \<le> 3"
    "remote_log (snd ?r) = remote_log w @ replicate k (CreateCollection name ?cfg)" by auto
  have "remote_log (snd (createCollection E name dimension db w)) = remote_log (snd ?r)"
    using assms
    by (cases ?r; cases "fst ?r")
       (auto simp add: createCollection_def ensureInitialized_def withRetry_def simp del: withRetry_loop.simps)
  with k show ?thesis by (intro exI[of _ k]) auto
qed

text \<open>
  Claim C1, as the code has it. With an initialised client, \<^verbatim>\<open>createCollection\<close> sends
  between one and three \<^verbatim>\<open>createCollection\<close> calls and nothing else, all with the same
  payload: one vector space of the given dimension with cosine distance, no sparse
  space, one shard and one replica. The vector space of the payload sent has no HNSW
  block when the configuration has no \<^verbatim>\<open>indexing.hnsw\<close>. When it has one, the block sent
  holds \<^verbatim>\<open>m\<close>, \<^verbatim>\<open>ef_construct\<close> and \<^verbatim>\<open>full_scan_threshold\<close> as given, with 16, 100 and
  10000 in place of a value that is left out or is 0, and \<^verbatim>\<open>on_disk\<close> as given, \<^verbatim>\<open>false\<close>
  when left out. Without quantization options the payload sent has no quantization
  block.
\<close>

theorem createCollection_hnsw_payload:
  "client db \<longrightarrow>
     (\<exists>k vc. 1 \<le> k \<and> k \<le> 3
        \<and> remote_log (snd (createCollection E name dimension db w))
          = remote_log w
            @ replicate k
                (CreateCollection name
                   \<lparr>vectors = Single vc, sparse_vectors = None, shard_number = 1,
                    replication_factor = 1\<rparr>)
        \<and> size vc = dimension \<and> distance vc = ''Cosine''
        \<and> hnsw_config vc
          = (case indexing_hnsw (config db) of
               None \<Rightarrow> None
             | Some h \<Rightarrow>
                 Some \<lparr>m = (case h_m h of None \<Rightarrow> 16 | Some v \<Rightarrow> if v = 0 then 16 else v),
                       ef_construct =
                         (case h_ef_construct h of None \<Rightarrow> 100 | Some v \<Rightarrow> if v = 0 then 100 else v),
                       full_scan_threshold =
                         (case h_full_scan_threshold h of
                            None \<Rightarrow> 10000
                          | Some v \<Rightarrow> if v = 0 then 10000 else v),
                       on_disk = (case h_on_disk h of None \<Rightarrow> False | Some b \<Rightarrow> b)\<rparr>)
        \<and> (quantization (config db) = None \<longrightarrow> quantization_config vc = None))"
proof
  assume c: "client db"
  let ?vc = "vectorConfig (config db) dimension"
  from createCollection_sends[OF c, of E name dimension w] obtain k where k: "1 \<le> k" "k \<le> 3"
    "remote_log (snd (createCollection E name dimension db w))
     = remote_log w @ replicate k (CreateCollection name (collectionConfig (config db) dimension))"
    by blast
  have p: "collectionConfig (config db) dimension
         = \<lparr>vectors = Single ?vc, sparse_vectors = None, shard_number = 1, replication_factor = 1\<rparr>"
    by (simp add: collectionConfig_def)
  have h: "hnsw_config ?vc
          = (case indexing_hnsw (config db) of
               None \<Rightarrow> None
             | Some h \<Rightarrow>
                 Some \<lparr>m = (case h_m h of None \<Rightarrow> 16 | Some v \<Rightarrow> if v = 0 then 16 else v),
                       ef_construct =
                         (case h_ef_construct h of None \<Rightarrow> 100 | Some v \<Rightarrow> if v = 0 then 100 else v),
                       full_scan_threshold =
                         (case h_full_scan_threshold h of
                            None \<Rightarrow> 10000
                          | Some v \<Rightarrow> if v = 0 then 10000 else v),
                       on_disk = (case h_on_disk h of None \<Rightarrow> False | Some b \<Rightarrow> b)\<rparr>)"
    by (simp add: vectorConfig_def hnsw_of_def num_or_def bool_or_false_def split: option.splits)
  have r: "size ?vc = dimension" "distance ?vc = ''Cosine''"
    "quantization (config db) = None \<longrightarrow> quantization_config ?vc = None"
    by (simp_all add: vectorConfig_def)
  from k p h r show "\<exists>k vc. 1 \<le> k \<and> k \<le> 3
        \<and> remote_log (snd (createCollection E name dimension db w))
          = remote_log w
            @ replicate k
                (CreateCollection name
                   \<lparr>vectors = Single vc, sparse_vectors = None, shard_number = 1,
                    replication_factor = 1\<rparr>)
        \<and> size vc = dimension \<and> distance vc = ''Cosine''
        \<and> hnsw_config vc
          = (case indexing_hnsw (config db) of
               None \<Rightarrow> None
             | Some h \<Rightarrow>
                 Some \<lparr>m = (case h_m h of None \<Rightarrow> 16 | Some v \<Rightarrow> if v = 0 then 16 else v),
                       ef_construct =
                         (case h_ef_construct h of None \<Rightarrow> 100 | Some v \<Rightarrow> if v = 0 then 100 else v),
                       full_scan_threshold =
                         (case h_full_scan_threshold h of
                            None \<Rightarrow> 10000
                          | Some v \<Rightarrow> if v = 0 then 10000 else v),
                       on_disk = (case h_on_disk h of None \<Rightarrow> False | Some b \<Rightarrow> b)\<rparr>)
        \<and> (quantization (config db) = None \<longrightarrow> quantization_config vc = None)"
    by (intro exI[of _ k] exI[of _ ?vc]) simp
qed

text \<open>
  At concrete inputs, from the theorem alone: the payload sent for an options object with
  no field set carries the four defaults; the one sent for an object that sets \<^verbatim>\<open>m\<close> to
  32, \<^verbatim>\<open>full_scan_threshold\<close> to 0 and \<^verbatim>\<open>on_disk\<close> to \<^verbatim>\<open>true\<close> carries 32, 100, 10000 and
  \<^verbatim>\<open>true\<close>; the one sent without HNSW options carries no block.
\<close>

theorem createCollection_hnsw_payload_witness:
  "client (new_QdrantVectorDatabase empty_hnsw_config)
   \<and> (\<exists>k. 1 \<le> k \<and> k \<le> 3
        \<and> remote_log (snd (createCollection (scripted_env [Inl (Error ''socket hang up'')]) ''docs'' 768
             (new_QdrantVectorDatabase empty_hnsw_config) world0))
          = replicate k
              (CreateCollection ''docs''
                 \<lparr>vectors = Single \<lparr>size = 768, distance = ''Cosine'',
                      hnsw_config = Some \<lparr>m = 16, ef_construct = 100, full_scan_threshold = 10000,
                                          on_disk = False\<rparr>,
                      quantization_config = None\<rparr>,
                  sparse_vectors = None, shard_number = 1, replication_factor = 1\<rparr>))
   \<and> (\<exists>k. 1 \<le> k \<and> k \<le> 3
        \<and> remote_log (snd (createCollection (scripted_env []) ''docs'' 768
             (new_QdrantVectorDatabase custom_hnsw_config) world0))
          = replicate k
              (CreateCollection ''docs''
                 \<lparr>vectors = Single \<lparr>size = 768, distance = ''Cosine'',
                      hnsw_config = Some \<lparr>m = 32, ef_construct = 100, full_scan_threshold = 10000,
                                          on_disk = True\<rparr>,
                      quantization_config = None\<rparr>,
                  sparse_vectors = None, shard_number = 1, replication_factor = 1\<rparr>))
   \<and> (\<exists>k. 1 \<le> k \<and> k \<le> 3
        \<and> remote_log (snd (createCollection (scripted_env []) ''docs'' 768
             (new_QdrantVectorDatabase plain_config) world0))
          = replicate k
              (CreateCollection ''docs''
                 \<lparr>vectors = Single \<lparr>size = 768, distance = ''Cosine'', hnsw_config = None,
                      quantization_config = None\<rparr>,
                  sparse_vectors = None, shard_number = 1, replication_factor = 1\<rparr>))"
proof -
  have c: "\<And>cfg. client (new_QdrantVectorDatabase cfg)"
    by (simp add: new_QdrantVectorDatabase_def initialize_def)
  have g: "\<And>cfg. config (new_QdrantVectorDatabase cfg) = cfg"
    by (simp add: new_QdrantVectorDatabase_def initialize_def)
  have e: "indexing_hnsw empty_hnsw_config
      = Some \<lparr>h_m = None, h_ef_construct = None, h_full_scan_threshold = None, h_on_disk = None\<rparr>"
    "quantization empty_hnsw_config = None"
    by (simp_all add: empty_hnsw_config_def plain_config_def)
  have u: "indexing_hnsw custom_hnsw_config
      = Some \<lparr>h_m = Some 32, h_ef_construct = None, h_full_scan_threshold = Some 0, h_on_disk = Some True\<rparr>"
    "quantization custom_hnsw_config = None"
    by (simp_all add: custom_hnsw_config_def plain_config_def)
  have n: "indexing_hnsw plain_config = None" "quantization plain_config = None"
    by (simp_all add: plain_config_def)
  have eq: "\<And>vc d h. size vc = d \<Longrightarrow> distance vc = ''Cosine'' \<Longrightarrow> hnsw_config vc = h \<Longrightarrow>
      quantization_config vc = None \<Longrightarrow>
      vc = \<lparr>size = d, distance = ''Cosine'', hnsw_config = h, quantization_config = None\<rparr>"
    by simp
  have a: "\<exists>k. 1 \<le> k \<and> k \<le> 3
        \<and> remote_log (snd (createCollection (scripted_env [Inl (Error ''socket hang up'')]) ''docs'' 768
             (new_QdrantVectorDatabase empty_hnsw_config) world0))
          = replicate k
              (CreateCollection ''docs''
                 \<lparr>vectors = Single \<lparr>size = 768, distance = ''Cosine'',
                      hnsw_config = Some \<lparr>m = 16, ef_construct = 100, full_scan_threshold = 10000,
                                          on_disk = False\<rparr>,
                      quantization_config = None\<rparr>,
                  sparse_vectors = None, shard_number = 1, replication_factor = 1\<rparr>)"
    using createCollection_hnsw_payload[of "new_QdrantVectorDatabase empty_hnsw_config"
        "scripted_env [Inl (Error ''socket hang up'')]" "''docs''" 768 world0] c g e
    by (auto simp add: world0_def dest!: eq)
  have b: "\<exists>k. 1 \<le> k \<and> k \<le> 3
        \<and> remote_log (snd (createCollection (scripted_env []) ''docs'' 768
             (new_QdrantVectorDatabase custom_hnsw_config) world0))
          = replicate k
              (CreateCollection ''docs''
                 \<lparr>vectors = Single \<lparr>size = 768, distance = ''Cosine'',
                      hnsw_config = Some \<lparr>m = 32, ef_construct = 100, full_scan_threshold = 10000,
                                          on_disk = True\<rparr>,
                      quantization_config = None\<rparr>,
                  sparse_vectors = None, shard_number = 1, replication_factor = 1\<rparr>)"
    using createCollection_hnsw_payload[of "new_QdrantVectorDatabase custom_hnsw_config"
        "scripted_env []" "''docs''" 768 world0] c g u
    by (auto simp add: world0_def dest!: eq)
  have d: "\<exists>k. 1 \<le> k \<and> k \<le> 3
        \<and> remote_log (snd (createCollection (scripted_env []) ''docs'' 768
             (new_QdrantVectorDatabase plain_config) world0))
          = replicate k
              (CreateCollection ''docs''
                 \<lparr>vectors = Single \<lparr>size = 768, distance = ''Cosine'', hnsw_config = None,
                      quantization_config = None\<rparr>,
                  sparse_vectors = None, shard_number = 1, replication_factor = 1\<rparr>)"
    using createCollection_hnsw_payload[of "new_QdrantVectorDatabase plain_config"
        "scripted_env []" "''docs''" 768 world0] c g n
    by (auto simp add: world0_def dest!: eq)
  from c a b d show ?thesis by blast
qed

text \<open>
  Claim C1 as stated fails: with no HNSW and no quantization options, the one payload
  sent for a collection of dimension 768 has no HNSW block at all.
\<close>

theorem createCollection_no_hnsw_counterexample:
  "remote_log (snd (createCollection (scripted_env []) ''docs'' 768 (new_QdrantVectorDatabase plain_config) world0))
   = [CreateCollection ''docs''
        \<lparr>vectors = Single \<lparr>size = 768, distance = ''Cosine'', hnsw_config = None,
                            quantization_config = None\<rparr>,
         sparse_vectors = None, shard_number = 1, replication_factor = 1\<rparr>]
   \<and> hnsw_config (vectorConfig plain_config 768)
     \<noteq> Some \<lparr>m = 16, ef_construct = 100, full_scan_threshold = 10000, on_disk = False\<rparr>"
  by (simp add: createCollection_def ensureInitialized_def new_QdrantVectorDatabase_def initialize_def
      withRetry_def client_createCollection_def scripted_env_def world0_def collectionConfig_def
      vectorConfig_def plain_config_def)

section \<open>Validation in insertHybrid\<close>

lemma string_of_nat_0: "string_of_nat 0 = ''0''"
  by code_simp

text \<open>
  Claim C2, as the code has it. On an initialised database, a hybrid insert of a batch
  that holds a document whose dense vector is empty or no array always throws, awaits no
  timer and sends no upsert: what it sends is the existence probe and, when the probe
  succeeds, the metadata fetch. When both succeed and the collection has the sparse space,
  the error thrown is the validation error of the first such document.
\<close>

theorem insertHybrid_invalid_vector:
  assumes "client db" and "\<exists>d\<in>set documents. bad_vector d"
  shows "\<exists>e db' w'. insertHybrid E name documents db w = (Inl e, db', w')
     \<and> sleeps w' = sleeps w
     \<and> (remote_log w' = remote_log w @ [GetCollection name]
         \<or> remote_log w' = remote_log w @ [GetCollection name, GetCollection name])
     \<and> (\<forall>i1 i2. remote_getCollection E (remote_log w) name = Inr i1
           \<and> remote_getCollection E (remote_log w @ [GetCollection name]) name = Inr i2
           \<and> hasSparseName i2 \<longrightarrow>
         e = validation_error (first_bad documents) (documents ! first_bad documents)
         \<and> remote_log w' = remote_log w @ [GetCollection name, GetCollection name])"
proof -
  let ?w1 = "w\<lparr>remote_log := remote_log w @ [GetCollection name]\<rparr>"
  let ?w2 = "?w1\<lparr>remote_log := remote_log ?w1 @ [GetCollection name]\<rparr>"
  from assms(2) have ne: "length documents \<noteq> 0" by auto
  have init: "ensureInitialized db = Inr ()" using assms(1) by (simp add: ensureInitialized_def)
  show ?thesis
  proof (cases "remote_getCollection E (remote_log w) name")
    case (Inl e1)
    then have "insertHybrid E name documents db w
        = insert_failed (Error (''Collection '' @ [CHR 0x27] @ name @ [CHR 0x27] @ '' does not exist'')) db ?w1"
      using ne init by (simp add: insertHybrid_def hasCollection_def client_getCollection_def)
    with Inl show ?thesis by (simp add: insert_failed_def)
  next
    case i1: (Inr i1)
    show ?thesis
    proof (cases "remote_getCollection E (remote_log w @ [GetCollection name]) name")
      case (Inl e2)
      with i1 have "insertHybrid E name documents db w = insert_failed e2 db ?w2"
        using ne init by (simp add: insertHybrid_def hasCollection_def client_getCollection_def)
      with Inl i1 show ?thesis by (simp add: insert_failed_def)
    next
      case i2: (Inr i2)
      show ?thesis
      proof (cases "hasSparseName i2")
        case False
        with i1 i2 have "\<exists>e. insertHybrid E name documents db w = insert_failed e db ?w2"
          using ne init by (auto simp add: insertHybrid_def hasCollection_def client_getCollection_def)
        with False i1 i2 show ?thesis by (auto simp add: insert_failed_def)
      next
        case True
        obtain r db3 w3 where b: "build_points E name documents 0 db ?w2 = (r, db3, w3)"
          by (cases "build_points E name documents 0 db ?w2") auto
        have r: "r = Inl (validation_error (first_bad documents) (documents ! first_bad documents))"
          using build_points_first_bad[OF assms(2), of E name 0 db ?w2] b by simp
        have w3: "remote_log w3 = remote_log ?w2" "sleeps w3 = sleeps ?w2"
          using build_points_world[of E name documents 0 db ?w2] b by simp_all
        from True i1 i2 b r have "insertHybrid E name documents db w
            = insert_failed (validation_error (first_bad documents) (documents ! first_bad documents)) db3 w3"
          using ne init by (simp add: insertHybrid_def hasCollection_def client_getCollection_def)
        with w3 i1 i2 show ?thesis by (simp add: insert_failed_def)
      qed
    qed
  qed
qed

theorem insertHybrid_invalid_vector_witness:
  "client (new_QdrantVectorDatabase plain_config)
   \<and> (\<exists>d\<in>set [sample_doc ''d1'' (Arr [1, 2]) ''aa bb'', sample_doc ''d2'' NotArray ''cc''].
         bad_vector d)
   \<and> (\<exists>e db' w'.
         insertHybrid (hybrid_env []) ''hybrid_docs''
           [sample_doc ''d1'' (Arr [1, 2]) ''aa bb'', sample_doc ''d2'' NotArray ''cc'']
           (new_QdrantVectorDatabase plain_config) world0 = (Inl e, db', w')
         \<and> sleeps w' = []
         \<and> remote_log w' = [GetCollection ''hybrid_docs'', GetCollection ''hybrid_docs'']
         \<and> e = validation_error 1 (sample_doc ''d2'' NotArray ''cc''))"
proof -
  let ?docs = "[sample_doc ''d1'' (Arr [1, 2]) ''aa bb'', sample_doc ''d2'' NotArray ''cc'']"
  have c: "client (new_QdrantVectorDatabase plain_config)"
    by (simp add: new_QdrantVectorDatabase_def initialize_def)
  have b: "\<exists>d\<in>set ?docs. bad_vector d"
    by (simp add: bad_vector_def sample_doc_def)
  have f: "first_bad ?docs = 1"
    by (simp add: first_bad_def bad_vector_def sample_doc_def)
  have g: "\<And>l. remote_getCollection (hybrid_env []) l ''hybrid_docs''
      = Inr \<lparr>params_sparse_vectors = Some [''sparse''], config_sparse_vectors = None, points_count = 0\<rparr>"
    by (simp add: hybrid_env_def)
  have h: "hasSparseName \<lparr>params_sparse_vectors = Some [''sparse''], config_sparse_vectors = None, points_count = 0\<rparr>"
    by (simp add: hasSparseName_def)
  from insertHybrid_invalid_vector[OF c b, of "hybrid_env []" "''hybrid_docs''" world0]
  obtain e db' w' where r:
    "insertHybrid (hybrid_env []) ''hybrid_docs'' ?docs (new_QdrantVectorDatabase plain_config) world0 = (Inl e, db', w')"
    "sleeps w' = sleeps world0"
    "\<forall>i1 i2. remote_getCollection (hybrid_env []) (remote_log world0) ''hybrid_docs'' = Inr i1
           \<and> remote_getCollection (hybrid_env []) (remote_log world0 @ [GetCollection ''hybrid_docs'']) ''hybrid_docs'' = Inr i2
           \<and> hasSparseName i2 \<longrightarrow>
         e = validation_error (first_bad ?docs) (?docs ! first_bad ?docs)
         \<and> remote_log w' = remote_log world0 @ [GetCollection ''hybrid_docs'', GetCollection ''hybrid_docs'']"
    by blast
  from r(3) g h have "e = validation_error (first_bad ?docs) (?docs ! first_bad ?docs)
         \<and> remote_log w' = remote_log world0 @ [GetCollection ''hybrid_docs'', GetCollection ''hybrid_docs'']"
    by blast
  with f have "e = validation_error 1 (sample_doc ''d2'' NotArray ''cc'')"
    "remote_log w' = [GetCollection ''hybrid_docs'', GetCollection ''hybrid_docs'']"
    by (simp_all add: world0_def)
  with r(1,2) c b show ?thesis by (simp add: world0_def)
qed

text \<open>
  Claim C2 as stated fails: for a one-document batch with an empty vector, the existence
  probe and the metadata fetch are both sent before the validation error is thrown.
\<close>

theorem insertHybrid_probes_first_counterexample:
  "insertHybrid (hybrid_env []) ''hybrid_docs'' [sample_doc ''d1'' (Arr []) ''aa bb'']
     (new_QdrantVectorDatabase plain_config) world0
   = (Inl (Error ''Document 0 (d1) has empty vector''),
      new_QdrantVectorDatabase plain_config,
      world0\<lparr>remote_log := [GetCollection ''hybrid_docs'', GetCollection ''hybrid_docs''],
             console := [ErrorLog, ErrorLog, ErrorLog, ErrorLog]\<rparr>)"
  by (simp add: insertHybrid_def hasCollection_def ensureInitialized_def client_getCollection_def
      new_QdrantVectorDatabase_def initialize_def hybrid_env_def world0_def hasSparseName_def
      sample_doc_def insert_failed_def string_of_nat_0 del: string_of_nat.simps)

section \<open>The existence check\<close>

text \<open>
  Claim C5. On a database whose client is initialised (as the constructor leaves it),
  \<^verbatim>\<open>hasCollection\<close> sends one \<^verbatim>\<open>getCollection\<close> probe and returns \<^verbatim>\<open>true\<close> exactly when
  the probe succeeds; whatever error the probe fails with, the result is \<^verbatim>\<open>false\<close> and
  nothing is thrown.
\<close>

theorem hasCollection_probe:
  assumes "client db"
  shows "hasCollection E collectionName db w
         = (Inr (case remote_getCollection E (remote_log w) collectionName of
                   Inr info \<Rightarrow> True
                 | Inl e \<Rightarrow> False),
            w\<lparr>remote_log := remote_log w @ [GetCollection collectionName]\<rparr>)"
  using assms
  by (cases "remote_getCollection E (remote_log w) collectionName")
     (simp_all add: hasCollection_def ensureInitialized_def client_getCollection_def)

theorem hasCollection_probe_witness:
  "client (new_QdrantVectorDatabase plain_config)
   \<and> hasCollection (scripted_env []) ''docs'' (new_QdrantVectorDatabase plain_config) world0
     = (Inr False, world0\<lparr>remote_log := [GetCollection ''docs'']\<rparr>)
   \<and> hasCollection (hybrid_env []) ''docs'' (new_QdrantVectorDatabase plain_config) world0
     = (Inr True, world0\<lparr>remote_log := [GetCollection ''docs'']\<rparr>)"
proof -
  have c: "client (new_QdrantVectorDatabase plain_config)"
    by (simp add: new_QdrantVectorDatabase_def initialize_def)
  show ?thesis
    using c hasCollection_probe[OF c, of "scripted_env []" "''docs''" world0]
      hasCollection_probe[OF c, of "hybrid_env []" "''docs''" world0]
    by (simp add: scripted_env_def hybrid_env_def world0_def)
qed

section \<open>Dense-only search\<close>

text \<open>
  Claim C8, as the code has it. On an initialised database, \<^verbatim>\<open>search\<close> sends exactly one
  call, a \<^verbatim>\<open>search\<close> request, whether it then succeeds or fails. The request addresses the
  named space \<^verbatim>\<open>dense\<close> exactly when the collection's name starts with \<^verbatim>\<open>hybrid_\<close>;
  otherwise it carries the plain query vector. The vector is the caller's, unchanged.
\<close>

theorem search_single_request:
  assumes "client db"
  shows "remote_log (snd (search E collectionName queryVector options db w))
         = remote_log w @ [Search collectionName (searchRequest collectionName queryVector options)]
       \<and> sr_vector (searchRequest collectionName queryVector options)
         = (if prefix ''hybrid_'' collectionName then NamedVector ''dense'' queryVector
            else PlainVector queryVector)"
proof
  show "remote_log (snd (search E collectionName queryVector options db w))
        = remote_log w @ [Search collectionName (searchRequest collectionName queryVector options)]"
    using assms
    by (cases "remote_search E (remote_log w) collectionName (searchRequest collectionName queryVector options)")
       (simp_all add: search_def ensureInitialized_def client_search_def)
  show "sr_vector (searchRequest collectionName queryVector options)
        = (if prefix ''hybrid_'' collectionName then NamedVector ''dense'' queryVector
           else PlainVector queryVector)"
    by (simp add: searchRequest_def)
qed

theorem search_single_request_witness:
  "client (new_QdrantVectorDatabase plain_config)
   \<and> remote_log (snd (search (hybrid_env []) ''hybrid_code_chunks_ab12'' [1, 2, 3] None
        (new_QdrantVectorDatabase plain_config) world0))
     = [Search ''hybrid_code_chunks_ab12''
          \<lparr>sr_vector = NamedVector ''dense'' [1, 2, 3], sr_limit = 10, sr_with_payload = True,
           sr_filter = None\<rparr>]"
proof -
  have c: "client (new_QdrantVectorDatabase plain_config)"
    by (simp add: new_QdrantVectorDatabase_def initialize_def)
  show ?thesis
    using c search_single_request[OF c, of "hybrid_env []" "''hybrid_code_chunks_ab12''" "[1, 2, 3]" None world0]
    by (simp add: searchRequest_def world0_def num_or_def)
qed

text \<open>
  Claim C8 as stated fails: a collection made by \<^verbatim>\<open>createHybridCollection\<close> under a name
  that does not start with \<^verbatim>\<open>hybrid_\<close> has the named spaces \<^verbatim>\<open>dense\<close> and \<^verbatim>\<open>sparse\<close>, and
  a search on it still carries the plain vector, addressed to the default space.
\<close>

theorem search_hybrid_by_name_counterexample:
  "remote_log (snd (search (hybrid_env []) ''docs'' [1, 2, 3] None (new_QdrantVectorDatabase plain_config)
      (snd (createHybridCollection (hybrid_env []) ''docs'' 3 (new_QdrantVectorDatabase plain_config) world0))))
   = [CreateCollection ''docs''
        \<lparr>vectors = Named [(''dense'', \<lparr>size = 3, distance = ''Cosine'', hnsw_config = None,
                                        quantization_config = None\<rparr>)],
         sparse_vectors = Some [(''sparse'', \<lparr>modifier = ''idf'', index_on_disk = True,
                                            index_datatype = None\<rparr>)],
         shard_number = 1, replication_factor = 1\<rparr>,
      Search ''docs''
        \<lparr>sr_vector = PlainVector [1, 2, 3], sr_limit = 10, sr_with_payload = True, sr_filter = None\<rparr>]"
  by (simp add: search_def createHybridCollection_def ensureInitialized_def new_QdrantVectorDatabase_def
      initialize_def withRetry_def client_createCollection_def client_search_def hybrid_env_def world0_def
      hybridCollectionConfig_def vectorConfig_def sparseVectorConfig_def plain_config_def searchRequest_def
      num_or_def nullish_or_def)

section \<open>Saving the vocabulary after an insert\<close>

text \<open>
  Claim C10. On an initialised database: when the trace of a hybrid insert shows the
  upsert and the service answered it without error, the insert returns normally,
  whatever the disk does. The disk is changed by an insert only when the upsert was
  answered \<^verbatim>\<open>acknowledged\<close> or \<^verbatim>\<open>completed\<close> (then one more metadata fetch precedes the
  save), and never by an insert that throws. A \<^verbatim>\<open>saveVocabulary\<close> whose \<^verbatim>\<open>mkdirSync\<close> or
  \<^verbatim>\<open>writeFileSync\<close> fails leaves the files as they were and reports once to
  \<^verbatim>\<open>console.error\<close>; it has no way to throw.
\<close>

theorem insertHybrid_save_never_fails:
  "(client db \<and> insertHybrid E name documents db w = (r, db', w')
      \<and> remote_log w' = remote_log w @ GetCollection name # GetCollection name # Upsert name pts # rest
      \<and> remote_upsert E (remote_log w @ [GetCollection name, GetCollection name]) name pts = Inr result
    \<longrightarrow> r = Inr ())
   \<and> (client db \<and> insertHybrid E name documents db w = (r, db', w')
      \<and> (files w' \<noteq> files w \<or> dirs w' \<noteq> dirs w)
    \<longrightarrow> r = Inr ()
        \<and> (\<exists>ps status. remote_upsert E (remote_log w @ [GetCollection name, GetCollection name]) name ps = Inr status
              \<and> (status = Some ''acknowledged'' \<or> status = Some ''completed'')
              \<and> remote_log w' = remote_log w @ [GetCollection name, GetCollection name, Upsert name ps,
                                                   GetCollection name]))
   \<and> (vocabularyPath tk = Some p \<and> p \<noteq> []
      \<and> (\<not> existsSync w (dirname p) \<and> fs_fails E (MkDir (dirname p)) \<or> fs_fails E (WriteFile p))
    \<longrightarrow> files (saveVocabulary E tk w) = files w
        \<and> console (saveVocabulary E tk w) = console w @ [ErrorLog])"
proof -
  have c1: "r = Inr ()"
    if a: "client db \<and> insertHybrid E name documents db w = (r, db', w')
      \<and> remote_log w' = remote_log w @ GetCollection name # GetCollection name # Upsert name pts # rest
      \<and> remote_upsert E (remote_log w @ [GetCollection name, GetCollection name]) name pts = Inr result"
  proof -
    from a have ne: "documents \<noteq> []" by (auto simp add: insertHybrid_def)
    from a insertHybrid_paths[of db documents E name w, OF _ ne] show ?thesis by auto
  qed
  have c2: "r = Inr ()
        \<and> (\<exists>ps status. remote_upsert E (remote_log w @ [GetCollection name, GetCollection name]) name ps = Inr status
              \<and> (status = Some ''acknowledged'' \<or> status = Some ''completed'')
              \<and> remote_log w' = remote_log w @ [GetCollection name, GetCollection name, Upsert name ps,
                                                   GetCollection name])"
    if a: "client db \<and> insertHybrid E name documents db w = (r, db', w')
      \<and> (files w' \<noteq> files w \<or> dirs w' \<noteq> dirs w)"
  proof -
    from a have ne: "documents \<noteq> []" by (auto simp add: insertHybrid_def)
    from a insertHybrid_paths[of db documents E name w, OF _ ne]
    obtain ps status db3 w4 where p:
      "remote_upsert E (remote_log w @ [GetCollection name, GetCollection name]) name ps = Inr status"
      "insertHybrid E name documents db w
         = (Inr (), fst (after_upsert E name status db3 w4), snd (after_upsert E name status db3 w4))"
      "remote_log w4 = remote_log w @ [GetCollection name, GetCollection name, Upsert name ps]"
      "files w4 = files w" "dirs w4 = dirs w"
      by auto
    from a p(2) have r: "r = Inr ()" and w': "w' = snd (after_upsert E name status db3 w4)" by simp_all
    have ack: "status = Some ''acknowledged'' \<or> status = Some ''completed''"
    proof (rule ccontr)
      assume "\<not> ?thesis"
      then have "after_upsert E name status db3 w4 = (db3, w4\<lparr>console := console w4 @ [Warn]\<rparr>)"
        by (simp add: after_upsert_other)
      with w' p(4,5) a show False by simp
    qed
    from after_upsert_log[OF ack, of E name db3 w4] w' p(3)
    have "remote_log w' = remote_log w @ [GetCollection name, GetCollection name, Upsert name ps, GetCollection name]"
      by simp
    with r p(1) ack show ?thesis by blast
  qed
  have c3: "files (saveVocabulary E tk w) = files w
        \<and> console (saveVocabulary E tk w) = console w @ [ErrorLog]"
    if "vocabularyPath tk = Some p \<and> p \<noteq> []
      \<and> (\<not> existsSync w (dirname p) \<and> fs_fails E (MkDir (dirname p)) \<or> fs_fails E (WriteFile p))"
    using that by (auto simp add: saveVocabulary_def Let_def)
  from c1 c2 c3 show ?thesis by blast
qed

theorem insertHybrid_save_never_fails_witness:
  "client (new_QdrantVectorDatabase plain_config)
   \<and> fs_fails (failing_disk (hybrid_env [(''aa bb'', [''aa'', ''bb''])]))
        (MkDir ''/home/u/.context/vocabulary'')
   \<and> insertHybrid (failing_disk (hybrid_env [(''aa bb'', [''aa'', ''bb''])])) ''hybrid_docs''
       [sample_doc ''d1'' (Arr [1, 2]) ''aa bb''] (new_QdrantVectorDatabase plain_config) world0
     = (Inr (),
        (new_QdrantVectorDatabase plain_config)\<lparr>tokenizers :=
           [(''hybrid_docs'', \<lparr>vocabulary = [(''aa'', 0), (''bb'', 1)], nextIndex = 2,
               vocabularyPath = Some ''/home/u/.context/vocabulary/vocabulary-docs.json''\<rparr>)]\<rparr>,
        world0\<lparr>remote_log :=
            [GetCollection ''hybrid_docs'', GetCollection ''hybrid_docs'',
             Upsert ''hybrid_docs''
               [\<lparr>pt_id = ''d1'', pt_dense = [1, 2], pt_sparse = \<lparr>indices = [0, 1], values = [1, 1]\<rparr>,
                 pt_payload = [(''content'', JStr ''aa bb''), (''relativePath'', JStr ''src/a.ts''),
                               (''startLine'', JNum 1), (''endLine'', JNum 2),
                               (''fileExtension'', JStr ''.ts'')]\<rparr>],
             GetCollection ''hybrid_docs''],
           console := [ErrorLog], nlp_calls := [''aa bb'']\<rparr>)
   \<and> files (saveVocabulary (failing_disk (hybrid_env []))
        \<lparr>vocabulary = [(''aa'', 0)], nextIndex = 1, vocabularyPath = Some ''/v/vocabulary-docs.json''\<rparr> world0)
     = files world0
   \<and> files (snd (snd (insertHybrid (hybrid_env [(''aa bb'', [''aa'', ''bb''])]) ''hybrid_docs''
        [sample_doc ''d1'' (Arr [1, 2]) ''aa bb''] (new_QdrantVectorDatabase plain_config) world0)))
       ''/home/u/.context/vocabulary/vocabulary-docs.json''
     \<noteq> None
   \<and> fst (insertHybrid (hybrid_env [(''aa bb'', [''aa'', ''bb''])]) ''hybrid_docs''
        [sample_doc ''d1'' (Arr [1, 2]) ''aa bb''] (new_QdrantVectorDatabase plain_config) world0)
     = Inr ()"
proof -
  let ?E = "failing_disk (hybrid_env [(''aa bb'', [''aa'', ''bb''])])"
  let ?G = "hybrid_env [(''aa bb'', [''aa'', ''bb''])]"
  let ?db = "new_QdrantVectorDatabase plain_config"
  let ?docs = "[sample_doc ''d1'' (Arr [1, 2]) ''aa bb'']"
  let ?pts = "[\<lparr>pt_id = ''d1'', pt_dense = [1, 2], pt_sparse = \<lparr>indices = [0, 1], values = [1, 1]\<rparr>,
                 pt_payload = [(''content'', JStr ''aa bb''), (''relativePath'', JStr ''src/a.ts''),
                               (''startLine'', JNum 1), (''endLine'', JNum 2),
                               (''fileExtension'', JStr ''.ts'')]\<rparr>]"
  let ?db' = "?db\<lparr>tokenizers :=
           [(''hybrid_docs'', \<lparr>vocabulary = [(''aa'', 0), (''bb'', 1)], nextIndex = 2,
               vocabularyPath = Some ''/home/u/.context/vocabulary/vocabulary-docs.json''\<rparr>)]\<rparr>"
  let ?w' = "world0\<lparr>remote_log :=
            [GetCollection ''hybrid_docs'', GetCollection ''hybrid_docs'', Upsert ''hybrid_docs'' ?pts,
             GetCollection ''hybrid_docs''],
           console := [ErrorLog], nlp_calls := [''aa bb'']\<rparr>"
  let ?tk = "\<lparr>vocabulary = [(''aa'', 0)], nextIndex = 1, vocabularyPath = Some ''/v/vocabulary-docs.json''\<rparr>"
  have c: "client ?db"
    by (simp add: new_QdrantVectorDatabase_def initialize_def)
  have f: "fs_fails ?E (MkDir ''/home/u/.context/vocabulary'')"
    "fs_fails (failing_disk (hybrid_env [])) (WriteFile ''/v/vocabulary-docs.json'')"
    by (simp_all add: failing_disk_def hybrid_env_def)
  obtain r db1 w1 where run: "insertHybrid ?E ''hybrid_docs'' ?docs ?db world0 = (r, db1, w1)"
    by (cases "insertHybrid ?E ''hybrid_docs'' ?docs ?db world0") auto
  have ev: "db1 = ?db'" "w1 = ?w'"
    using run[symmetric] by (simp_all add: insert_eval)
  have lg: "remote_log w1 = remote_log world0 @ GetCollection ''hybrid_docs'' # GetCollection ''hybrid_docs''
              # Upsert ''hybrid_docs'' ?pts # [GetCollection ''hybrid_docs'']"
    using ev(2) by (simp add: world0_def)
  have up: "remote_upsert ?E (remote_log world0 @ [GetCollection ''hybrid_docs'', GetCollection ''hybrid_docs''])
              ''hybrid_docs'' ?pts = Inr (Some ''completed'')"
    by (simp add: failing_disk_def hybrid_env_def)
  have r: "r = Inr ()"
    using insertHybrid_save_never_fails[where db = ?db and E = ?E and name = "''hybrid_docs''"
        and documents = ?docs and w = world0 and r = r and db' = db1 and w' = w1 and pts = ?pts
        and rest = "[GetCollection ''hybrid_docs'']" and result = "Some ''completed''"]
      c run lg up by blast
  have sv: "files (saveVocabulary (failing_disk (hybrid_env [])) ?tk world0) = files world0"
    using insertHybrid_save_never_fails[where tk = ?tk and p = "''/v/vocabulary-docs.json''"
        and E = "failing_disk (hybrid_env [])" and w = world0] f(2)
    by simp
  from r ev run have "insertHybrid ?E ''hybrid_docs'' ?docs ?db world0 = (Inr (), ?db', ?w')"
    by simp
  moreover
  obtain r2 db2 w2 where run2: "insertHybrid ?G ''hybrid_docs'' ?docs ?db world0 = (r2, db2, w2)"
    by (cases "insertHybrid ?G ''hybrid_docs'' ?docs ?db world0") auto
  have wr: "files w2 ''/home/u/.context/vocabulary/vocabulary-docs.json'' \<noteq> None"
    using arg_cong[OF run2, of "\<lambda>x. files (snd (snd x)) ''/home/u/.context/vocabulary/vocabulary-docs.json''"]
    by (auto simp add: insert_eval dest: sym)
  have "files world0 ''/home/u/.context/vocabulary/vocabulary-docs.json'' = None"
    by (simp add: world0_def)
  with wr have ch: "files w2 \<noteq> files world0" by metis
  have r2: "r2 = Inr ()"
    using insertHybrid_save_never_fails[where db = ?db and E = ?G and name = "''hybrid_docs''"
        and documents = ?docs and w = world0 and r = r2 and db' = db2 and w' = w2]
      c run2 ch by blast
  ultimately show ?thesis using c f(1) sv wr r2 run2 by simp
qed

section \<open>The sparse encoding\<close>

text \<open>
  Claim C6. For a text that is empty or white space only, \<^verbatim>\<open>generateSparseVector\<close> returns
  the empty vector and leaves tokenizer and world as they were: the natural-language
  library is not called. For any other text the library is called once, and the vector
  has one entry per distinct token of \<^verbatim>\<open>tokenize\<close>, in the order of first occurrence: the
  value is the number of occurrences of the token, the index is the token's index in the
  vocabulary as the call leaves it. Both sequences always have the same length.
\<close>

theorem generateSparseVector_encoding:
  "((\<forall>c\<in>set text. is_ws c) \<longrightarrow>
      generateSparseVector E text tk w = (\<lparr>indices = [], values = []\<rparr>, tk, w))
   \<and> (\<not> (\<forall>c\<in>set text. is_ws c) \<and> generateSparseVector E text tk w = (sv, tk', w') \<longrightarrow>
        values sv = map (\<lambda>t. int (count_list (fst (tokenize E text w)) t))
                      (distinct_tokens (fst (tokenize E text w)))
        \<and> map Some (indices sv)
          = map (map_get (vocabulary tk')) (distinct_tokens (fst (tokenize E text w)))
        \<and> nlp_calls w' = nlp_calls w @ [text])
   \<and> length (indices (fst (generateSparseVector E text tk w)))
     = length (values (fst (generateSparseVector E text tk w)))"
proof -
  have len: "length (indices (fst (generateSparseVector E text tk w)))
     = length (values (fst (generateSparseVector E text tk w)))"
  proof (cases "\<forall>c\<in>set text. is_ws c")
    case True
    then show ?thesis by (simp add: generateSparseVector_blank)
  next
    case False
    obtain sv tk' w' where g: "generateSparseVector E text tk w = (sv, tk', w')"
      by (cases "generateSparseVector E text tk w") auto
    from arg_cong[OF generateSparseVector_tokens(1)[OF False g], of length]
    have "length (values sv) = length (distinct_tokens (fst (tokenize E text w)))" by simp
    moreover from arg_cong[OF generateSparseVector_tokens(2)[OF False g], of length]
    have "length (indices sv) = length (distinct_tokens (fst (tokenize E text w)))" by simp
    ultimately show ?thesis using g by simp
  qed
  show ?thesis
    using generateSparseVector_blank[of "text" E tk w] generateSparseVector_tokens(1,2,3)[of "text" E tk w sv tk' w'] len
    by blast
qed

theorem generateSparseVector_encoding_witness:
  "\<not> (\<forall>c\<in>set ''aa bb aa''. is_ws c)
   \<and> generateSparseVector (hybrid_env [(''aa bb aa'', [''aa'', ''bb'', ''aa''])]) ''aa bb aa''
       fresh_tokenizer world0
     = (\<lparr>indices = [0, 1], values = [2, 1]\<rparr>,
        fresh_tokenizer\<lparr>vocabulary := [(''aa'', 0), (''bb'', 1)], nextIndex := 2\<rparr>,
        world0\<lparr>nlp_calls := [''aa bb aa'']\<rparr>)
   \<and> is_ws CHR '' '' \<and> is_ws (CHR 0x09)
   \<and> generateSparseVector (hybrid_env []) [CHR '' '', CHR 0x09] fresh_tokenizer world0
     = (\<lparr>indices = [], values = []\<rparr>, fresh_tokenizer, world0)"
proof -
  let ?E = "hybrid_env [(''aa bb aa'', [''aa'', ''bb'', ''aa''])]"
  let ?sv = "\<lparr>indices = [0, 1], values = [2, 1]\<rparr>"
  let ?tk = "fresh_tokenizer\<lparr>vocabulary := [(''aa'', 0), (''bb'', 1)], nextIndex := 2\<rparr>"
  let ?w = "world0\<lparr>nlp_calls := [''aa bb aa'']\<rparr>"
  have n: "\<not> (\<forall>c\<in>set ''aa bb aa''. is_ws c)" by (simp add: is_ws_def)
  have b: "\<forall>c\<in>set [CHR '' '', CHR 0x09]. is_ws c" by (simp add: is_ws_def)
  have ev: "generateSparseVector ?E ''aa bb aa'' fresh_tokenizer world0 = (?sv, ?tk, ?w)"
    by (simp add: encode_eval)
  have b': "is_ws CHR '' '' \<and> is_ws (CHR 0x09)" by (simp add: is_ws_def)
  show ?thesis
    using n b b' ev
      generateSparseVector_encoding[of "[CHR '' '', CHR 0x09]" "hybrid_env []" fresh_tokenizer world0]
      generateSparseVector_encoding[of "''aa bb aa''" ?E fresh_tokenizer world0 ?sv ?tk ?w]
    by simp
qed

section \<open>The snapshot round trip\<close>

text \<open>
  Claim C9. Take a store with a path, whose table holds each term once and whose counter
  is 0 only when the table is empty, and a disk on which the snapshot can be written and
  read. Then \<^verbatim>\<open>saveVocabulary\<close> puts the table and the counter in the file at that path,
  whatever the file held before, and reports nothing; a tokenizer constructed on the path
  afterwards has the same index for every term and the same counter, and its load
  reports nothing. The condition on the store follows from the property that a new
  store has and every encode keeps. A path with no file gives the empty table with
  counter 0 and reports nothing. A file that cannot be read, is a directory, is no JSON
  or has no \<^verbatim>\<open>vocabulary\<close> gives the empty table with counter 0 and one line on
  \<^verbatim>\<open>console.warn\<close>; the constructor returns all the same.
\<close>

theorem vocabulary_round_trip:
  "(vocabularyPath tk = Some p \<and> p \<noteq> []
      \<and> distinct (map fst (vocabulary tk)) \<and> (nextIndex tk = 0 \<longrightarrow> vocabulary tk = [])
      \<and> writable E w p \<and> \<not> fs_fails E (ReadFile p)
    \<longrightarrow> files (saveVocabulary E tk w)
          = (files w)(p \<mapsto> JsonDoc \<lparr>j_vocabulary = Some (vocabulary tk),
                                      j_nextIndex = Some (nextIndex tk),
                                      j_timestamp = Some (now_iso E)\<rparr>)
        \<and> (\<forall>t. map_get (vocabulary (fst (new_BM25Tokenizer E (Some p) (saveVocabulary E tk w)))) t
              = map_get (vocabulary tk) t)
        \<and> nextIndex (fst (new_BM25Tokenizer E (Some p) (saveVocabulary E tk w))) = nextIndex tk
        \<and> snd (new_BM25Tokenizer E (Some p) (saveVocabulary E tk w)) = saveVocabulary E tk w
        \<and> console (saveVocabulary E tk w) = console w)
   \<and> (vocab_inv tk \<longrightarrow> distinct (map fst (vocabulary tk)) \<and> (nextIndex tk = 0 \<longrightarrow> vocabulary tk = []))
   \<and> vocab_inv \<lparr>vocabulary = [], nextIndex = 0, vocabularyPath = path\<rparr>
   \<and> (vocab_inv tk \<longrightarrow> vocab_inv (fst (snd (generateSparseVector E text tk w))))
   \<and> (q \<noteq> [] \<and> \<not> existsSync w q
    \<longrightarrow> new_BM25Tokenizer E (Some q) w
        = (\<lparr>vocabulary = [], nextIndex = 0, vocabularyPath = Some q\<rparr>, w))
   \<and> (q \<noteq> [] \<and> existsSync w q
      \<and> (fs_fails E (ReadFile q) \<or> files w q = None \<or> files w q = Some NotJson
          \<or> (\<exists>d. files w q = Some (JsonDoc d) \<and> j_vocabulary d = None))
    \<longrightarrow> new_BM25Tokenizer E (Some q) w
        = (\<lparr>vocabulary = [], nextIndex = 0, vocabularyPath = Some q\<rparr>,
           w\<lparr>console := console w @ [Warn]\<rparr>))"
proof -
  have c1: "files (saveVocabulary E tk w)
          = (files w)(p \<mapsto> JsonDoc \<lparr>j_vocabulary = Some (vocabulary tk),
                                      j_nextIndex = Some (nextIndex tk),
                                      j_timestamp = Some (now_iso E)\<rparr>)
        \<and> (\<forall>t. map_get (vocabulary (fst (new_BM25Tokenizer E (Some p) (saveVocabulary E tk w)))) t
              = map_get (vocabulary tk) t)
        \<and> nextIndex (fst (new_BM25Tokenizer E (Some p) (saveVocabulary E tk w))) = nextIndex tk
        \<and> snd (new_BM25Tokenizer E (Some p) (saveVocabulary E tk w)) = saveVocabulary E tk w
        \<and> console (saveVocabulary E tk w) = console w"
    if a: "vocabularyPath tk = Some p \<and> p \<noteq> []
      \<and> distinct (map fst (vocabulary tk)) \<and> (nextIndex tk = 0 \<longrightarrow> vocabulary tk = [])
      \<and> writable E w p \<and> \<not> fs_fails E (ReadFile p)"
  proof -
    from a have h: "vocabularyPath tk = Some p" "p \<noteq> []" "writable E w p" by simp_all
    note s = saveVocabulary_writes[OF h]
    from a s(1) reload_after_save[of tk p E w]
    have "new_BM25Tokenizer E (Some p) (saveVocabulary E tk w)
         = (\<lparr>vocabulary = vocabulary tk, nextIndex = nextIndex tk, vocabularyPath = Some p\<rparr>,
            saveVocabulary E tk w)" by simp
    with s a show ?thesis by (simp add: from_entries_distinct)
  qed
  have c2: "vocab_inv tk \<longrightarrow> distinct (map fst (vocabulary tk)) \<and> (nextIndex tk = 0 \<longrightarrow> vocabulary tk = [])"
  proof
    assume v: "vocab_inv tk"
    from v have "distinct (map fst (vocabulary tk))" by (simp add: vocab_inv_def)
    with vocab_inv_counter[OF v] show "distinct (map fst (vocabulary tk)) \<and> (nextIndex tk = 0 \<longrightarrow> vocabulary tk = [])"
      by blast
  qed
  have c3: "vocab_inv \<lparr>vocabulary = [], nextIndex = 0, vocabularyPath = path\<rparr>"
    by (simp add: vocab_inv_def)
  have c4: "vocab_inv tk \<longrightarrow> vocab_inv (fst (snd (generateSparseVector E text tk w)))"
    using generateSparseVector_inv[of tk E "text" w] by simp
  from c1 c2 c3 c4 load_missing[of q w E] load_corrupt[of q w E] show ?thesis by blast
qed

text \<open>
  At concrete inputs: a save over an older snapshot replaces it, and the reload has the
  saved table and not the older one; a save on an empty disk makes the directory first.
\<close>

theorem vocabulary_round_trip_witness:
  "vocabularyPath sample_tokenizer = Some ''/v/vocabulary-ab12.json''
   \<and> writable (hybrid_env []) used_disk ''/v/vocabulary-ab12.json''
   \<and> files used_disk ''/v/vocabulary-ab12.json''
     = Some (JsonDoc \<lparr>j_vocabulary = Some [(''zz'', 0)], j_nextIndex = Some 1,
                      j_timestamp = Some ''2023-01-01T00:00:00.000Z''\<rparr>)
   \<and> files (saveVocabulary (hybrid_env []) sample_tokenizer used_disk) ''/v/vocabulary-ab12.json''
     = Some (JsonDoc \<lparr>j_vocabulary = Some [(''aa'', 0), (''bb'', 1)], j_nextIndex = Some 2,
                      j_timestamp = Some ''2024-01-01T00:00:00.000Z''\<rparr>)
   \<and> map_get (vocabulary (fst (new_BM25Tokenizer (hybrid_env []) (Some ''/v/vocabulary-ab12.json'')
       (saveVocabulary (hybrid_env []) sample_tokenizer used_disk)))) ''bb'' = Some 1
   \<and> map_get (vocabulary (fst (new_BM25Tokenizer (hybrid_env []) (Some ''/v/vocabulary-ab12.json'')
       (saveVocabulary (hybrid_env []) sample_tokenizer used_disk)))) ''zz'' = None
   \<and> nextIndex (fst (new_BM25Tokenizer (hybrid_env []) (Some ''/v/vocabulary-ab12.json'')
       (saveVocabulary (hybrid_env []) sample_tokenizer used_disk))) = 2
   \<and> writable (hybrid_env []) world0 ''/v/vocabulary-ab12.json''
   \<and> nextIndex (fst (new_BM25Tokenizer (hybrid_env []) (Some ''/v/vocabulary-ab12.json'')
       (saveVocabulary (hybrid_env []) sample_tokenizer world0))) = 2
   \<and> \<not> existsSync world0 ''/v/vocabulary-ab12.json''
   \<and> new_BM25Tokenizer (hybrid_env []) (Some ''/v/vocabulary-ab12.json'') world0
     = (\<lparr>vocabulary = [], nextIndex = 0, vocabularyPath = Some ''/v/vocabulary-ab12.json''\<rparr>, world0)
   \<and> new_BM25Tokenizer (hybrid_env []) (Some ''/v/vocabulary-ab12.json'')
       (world0\<lparr>files := (\<lambda>x. None)(''/v/vocabulary-ab12.json'' \<mapsto> NotJson)\<rparr>)
     = (\<lparr>vocabulary = [], nextIndex = 0, vocabularyPath = Some ''/v/vocabulary-ab12.json''\<rparr>,
        world0\<lparr>files := (\<lambda>x. None)(''/v/vocabulary-ab12.json'' \<mapsto> NotJson), console := [Warn]\<rparr>)"
proof -
  let ?E = "hybrid_env []"
  let ?p = "''/v/vocabulary-ab12.json''"
  let ?wc = "world0\<lparr>files := (\<lambda>x. None)(?p \<mapsto> NotJson)\<rparr>"
  have h: "vocabularyPath sample_tokenizer = Some ?p" "?p \<noteq> []"
    "distinct (map fst (vocabulary sample_tokenizer))"
    "nextIndex sample_tokenizer = 0 \<longrightarrow> vocabulary sample_tokenizer = []"
    by (simp_all add: sample_tokenizer_def)
  have wu: "writable ?E used_disk ?p"
    by (simp add: writable_def existsSync_def dirname_def used_disk_def hybrid_env_def world0_def)
  have w0: "writable ?E world0 ?p"
    by (simp add: writable_def existsSync_def dirname_def hybrid_env_def world0_def)
  have old: "files used_disk ?p
     = Some (JsonDoc \<lparr>j_vocabulary = Some [(''zz'', 0)], j_nextIndex = Some 1,
                      j_timestamp = Some ''2023-01-01T00:00:00.000Z''\<rparr>)"
    by (simp add: used_disk_def)
  have r: "\<not> fs_fails ?E (ReadFile ?p)" "now_iso ?E = ''2024-01-01T00:00:00.000Z''"
    by (simp_all add: hybrid_env_def)
  have m: "\<not> existsSync world0 ?p" "existsSync ?wc ?p" "files ?wc ?p = Some NotJson"
    by (simp_all add: existsSync_def world0_def)
  from vocabulary_round_trip[of sample_tokenizer ?p ?E used_disk _ "[]" ?p] h wu r(1)
  have a: "files (saveVocabulary ?E sample_tokenizer used_disk)
          = (files used_disk)(?p \<mapsto> JsonDoc \<lparr>j_vocabulary = Some (vocabulary sample_tokenizer),
                                      j_nextIndex = Some (nextIndex sample_tokenizer),
                                      j_timestamp = Some (now_iso ?E)\<rparr>)"
    "\<forall>t. map_get (vocabulary (fst (new_BM25Tokenizer ?E (Some ?p) (saveVocabulary ?E sample_tokenizer used_disk)))) t
             = map_get (vocabulary sample_tokenizer) t"
    "nextIndex (fst (new_BM25Tokenizer ?E (Some ?p) (saveVocabulary ?E sample_tokenizer used_disk)))
       = nextIndex sample_tokenizer"
    by simp_all
  from vocabulary_round_trip[of sample_tokenizer ?p ?E world0 _ "[]" ?p] h w0 r(1)
  have b: "nextIndex (fst (new_BM25Tokenizer ?E (Some ?p) (saveVocabulary ?E sample_tokenizer world0)))
       = nextIndex sample_tokenizer"
    by simp
  have f1: "files (saveVocabulary ?E sample_tokenizer used_disk) ?p
     = Some (JsonDoc \<lparr>j_vocabulary = Some [(''aa'', 0), (''bb'', 1)], j_nextIndex = Some 2,
                      j_timestamp = Some ''2024-01-01T00:00:00.000Z''\<rparr>)"
    using a(1) r(2) by (simp add: sample_tokenizer_def)
  have f2: "map_get (vocabulary (fst (new_BM25Tokenizer ?E (Some ?p) (saveVocabulary ?E sample_tokenizer used_disk)))) ''bb'' = Some 1"
    "map_get (vocabulary (fst (new_BM25Tokenizer ?E (Some ?p) (saveVocabulary ?E sample_tokenizer used_disk)))) ''zz'' = None"
    "nextIndex (fst (new_BM25Tokenizer ?E (Some ?p) (saveVocabulary ?E sample_tokenizer used_disk))) = 2"
    "nextIndex (fst (new_BM25Tokenizer ?E (Some ?p) (saveVocabulary ?E sample_tokenizer world0))) = 2"
    using a(2,3) b by (simp_all add: sample_tokenizer_def)
  have miss: "new_BM25Tokenizer ?E (Some ?p) world0
     = (\<lparr>vocabulary = [], nextIndex = 0, vocabularyPath = Some ?p\<rparr>, world0)"
    using vocabulary_round_trip[of sample_tokenizer ?p ?E world0 _ "[]" ?p] h(2) m(1) by blast
  have bad: "new_BM25Tokenizer ?E (Some ?p) ?wc
     = (\<lparr>vocabulary = [], nextIndex = 0, vocabularyPath = Some ?p\<rparr>, ?wc\<lparr>console := console ?wc @ [Warn]\<rparr>)"
    using vocabulary_round_trip[of sample_tokenizer ?p ?E ?wc _ "[]" ?p] h(2) m(2,3) by blast
  have "?wc\<lparr>console := console ?wc @ [Warn]\<rparr>
      = world0\<lparr>files := (\<lambda>x. None)(?p \<mapsto> NotJson), console := [Warn]\<rparr>"
    by (simp add: world0_def)
  with h(1) wu w0 old f1 f2 m(1) miss bad show ?thesis by simp
qed

section \<open>Stability of the vocabulary\<close>

text \<open>
  Claim C4, as the code has it. In any store, a term that has an index keeps it through
  every encode, and an encode of a text containing the term emits that index for it. In a
  store whose terms and indices are each held once, with every index non-negative and
  below the counter (true of a new store), every encode keeps that property and never
  lowers the counter, so no index is given to a second term. After a save that reported
  no error, a tokenizer constructed on the same path has the same index for the term,
  and the property holds there too.
\<close>

theorem vocabulary_stability:
  "(map_get (vocabulary tk) t = Some i \<and> generateSparseVector E text tk w = (sv, tk', w')
    \<longrightarrow> map_get (vocabulary tk') t = Some i
        \<and> (t \<in> set (fst (tokenize E text w)) \<and> \<not> (\<forall>c\<in>set text. is_ws c)
           \<longrightarrow> (t, i) \<in> set (zip (distinct_tokens (fst (tokenize E text w))) (indices sv))))
   \<and> (vocab_inv tk \<and> generateSparseVector E text tk w = (sv, tk', w')
    \<longrightarrow> vocab_inv tk' \<and> nextIndex tk \<le> nextIndex tk')
   \<and> vocab_inv \<lparr>vocabulary = [], nextIndex = 0, vocabularyPath = path\<rparr>
   \<and> (vocabularyPath tk = Some p \<and> p \<noteq> [] \<and> vocab_inv tk
      \<and> console (saveVocabulary E tk w) = console w \<and> \<not> fs_fails E (ReadFile p)
      \<and> map_get (vocabulary tk) t = Some i
    \<longrightarrow> map_get (vocabulary (fst (new_BM25Tokenizer E (Some p) (saveVocabulary E tk w)))) t = Some i
        \<and> vocab_inv (fst (new_BM25Tokenizer E (Some p) (saveVocabulary E tk w))))"
proof -
  have c1: "map_get (vocabulary tk') t = Some i
        \<and> (t \<in> set (fst (tokenize E text w)) \<and> \<not> (\<forall>c\<in>set text. is_ws c)
           \<longrightarrow> (t, i) \<in> set (zip (distinct_tokens (fst (tokenize E text w))) (indices sv)))"
    if a: "map_get (vocabulary tk) t = Some i \<and> generateSparseVector E text tk w = (sv, tk', w')"
  proof -
    from a generateSparseVector_keeps[of tk t i E "text" w]
    have k: "map_get (vocabulary tk') t = Some i" by simp
    have "(t, i) \<in> set (zip (distinct_tokens (fst (tokenize E text w))) (indices sv))"
      if b: "t \<in> set (fst (tokenize E text w))" "\<not> (\<forall>c\<in>set text. is_ws c)"
    proof -
      from a have g: "generateSparseVector E text tk w = (sv, tk', w')" by simp
      from generateSparseVector_tokens(2)[OF b(2) g] b(1) k show ?thesis
        by (intro zip_lookup[where f = "map_get (vocabulary tk')"]) (simp_all add: set_distinct_tokens)
    qed
    with k show ?thesis by blast
  qed
  have c2: "vocab_inv tk' \<and> nextIndex tk \<le> nextIndex tk'"
    if "vocab_inv tk \<and> generateSparseVector E text tk w = (sv, tk', w')"
    using that generateSparseVector_inv[of tk E "text" w] by simp
  have c3: "vocab_inv \<lparr>vocabulary = [], nextIndex = 0, vocabularyPath = path\<rparr>"
    by (simp add: vocab_inv_def)
  have c4: "map_get (vocabulary (fst (new_BM25Tokenizer E (Some p) (saveVocabulary E tk w)))) t = Some i
        \<and> vocab_inv (fst (new_BM25Tokenizer E (Some p) (saveVocabulary E tk w)))"
    if a: "vocabularyPath tk = Some p \<and> p \<noteq> [] \<and> vocab_inv tk
      \<and> console (saveVocabulary E tk w) = console w \<and> \<not> fs_fails E (ReadFile p)
      \<and> map_get (vocabulary tk) t = Some i"
  proof -
    from a have d: "distinct (map fst (vocabulary tk))" by (simp add: vocab_inv_def)
    from a vocab_inv_counter[of tk] have z: "nextIndex tk = 0 \<longrightarrow> vocabulary tk = []" by simp
    from a d z reload_after_save[of tk p E w]
    have "new_BM25Tokenizer E (Some p) (saveVocabulary E tk w)
         = (\<lparr>vocabulary = vocabulary tk, nextIndex = nextIndex tk, vocabularyPath = Some p\<rparr>,
            saveVocabulary E tk w)" by simp
    with a show ?thesis by (simp add: vocab_inv_def)
  qed
  from c1 c2 c3 c4 show ?thesis by blast
qed

theorem vocabulary_stability_witness:
  "map_get (vocabulary sample_tokenizer) ''bb'' = Some 1
   \<and> vocab_inv sample_tokenizer
   \<and> generateSparseVector query_env ''bb cc bb'' sample_tokenizer world0
     = (\<lparr>indices = [1, 2], values = [2, 1]\<rparr>,
        sample_tokenizer\<lparr>vocabulary := [(''aa'', 0), (''bb'', 1), (''cc'', 2)], nextIndex := 3\<rparr>,
        world0\<lparr>nlp_calls := [''bb cc bb'']\<rparr>)
   \<and> (''bb'', 1) \<in> set (zip (distinct_tokens (fst (tokenize query_env ''bb cc bb'' world0))) [1, 2 :: int])
   \<and> vocab_inv (sample_tokenizer\<lparr>vocabulary := [(''aa'', 0), (''bb'', 1), (''cc'', 2)], nextIndex := 3\<rparr>)
   \<and> map_get (vocabulary (fst (new_BM25Tokenizer query_env (Some ''/v/vocabulary-ab12.json'')
        (saveVocabulary query_env sample_tokenizer world0)))) ''bb'' = Some 1"
proof -
  let ?p = "''/v/vocabulary-ab12.json''"
  let ?sv = "\<lparr>indices = [1, 2], values = [2, 1]\<rparr>"
  let ?tk = "sample_tokenizer\<lparr>vocabulary := [(''aa'', 0), (''bb'', 1), (''cc'', 2)], nextIndex := 3\<rparr>"
  let ?w = "world0\<lparr>nlp_calls := [''bb cc bb'']\<rparr>"
  have g: "map_get (vocabulary sample_tokenizer) ''bb'' = Some 1"
    by (simp add: sample_tokenizer_def)
  have v: "vocab_inv sample_tokenizer"
    by (simp add: vocab_inv_def sample_tokenizer_def)
  have ev: "generateSparseVector query_env ''bb cc bb'' sample_tokenizer world0 = (?sv, ?tk, ?w)"
    by (simp add: query_env_def sample_tokenizer_def encode_eval)
  have tok: "''bb'' \<in> set (fst (tokenize query_env ''bb cc bb'' world0))"
    by (simp add: query_env_def encode_eval)
  have n: "\<not> (\<forall>c\<in>set ''bb cc bb''. is_ws c)" by (simp add: is_ws_def)
  have h: "vocabularyPath sample_tokenizer = Some ?p" "?p \<noteq> []"
    by (simp_all add: sample_tokenizer_def)
  have c: "console (saveVocabulary query_env sample_tokenizer world0) = console world0"
    by (simp add: query_env_def disk_eval)
  have r: "\<not> fs_fails query_env (ReadFile ?p)"
    by (simp add: query_env_def hybrid_env_def)
  from vocabulary_stability[of sample_tokenizer "''bb''" 1 query_env "''bb cc bb''" world0 ?sv ?tk ?w None ?p]
    g v ev tok n h c r
  show ?thesis by simp
qed

text \<open>
  Claim C4 as stated fails after a reload: an encode saves nothing (\<^verbatim>\<open>hybridSearch\<close> never
  calls \<^verbatim>\<open>saveVocabulary\<close>, and \<^verbatim>\<open>insertHybrid\<close> only after an acknowledged upsert). The
  first session gives \<^verbatim>\<open>cc\<close> the index 0; the second session, started from the same disk,
  gives 0 to \<^verbatim>\<open>dd\<close> and 1 to \<^verbatim>\<open>cc\<close>.
\<close>

theorem vocabulary_reload_counterexample:
  "indices (fst first_session) = [0]
   \<and> map_get (vocabulary (fst (snd first_session))) ''cc'' = Some 0
   \<and> files (snd (snd first_session)) = files world0
   \<and> indices (fst second_session) = [0, 1]
   \<and> map_get (vocabulary (fst (snd second_session))) ''dd'' = Some 0
   \<and> map_get (vocabulary (fst (snd second_session))) ''cc'' = Some 1"
  by (simp add: second_session_def first_session_eq)
    (simp add: query_env_def new_BM25Tokenizer_def loadVocabulary_def existsSync_def
      truthy_str_def encode_eval)

section \<open>The fused query\<close>

text \<open>
  Claim C7. On an initialised database and for a request list that is not empty,
  \<^verbatim>\<open>hybridSearch\<close> sends exactly one call, a \<^verbatim>\<open>query\<close> with fusion \<^verbatim>\<open>rrf\<close>, the limit of the
  options (10 when missing or 0) and the filter of the options when it is truthy, and
  with one prefetch per request in the order of the requests. Each prefetch asks for
  \<open>max (limit * 3) 100\<close> candidates with payload. For a request on \<^verbatim>\<open>vector\<close> or \<^verbatim>\<open>dense\<close>
  it uses the space \<^verbatim>\<open>dense\<close> and carries the array of the request unchanged. For any
  other request it uses the space \<^verbatim>\<open>sparse\<close> and carries what \<^verbatim>\<open>generateSparseVector\<close>
  returns for the text of the request in the tokenizer that \<^verbatim>\<open>getTokenizer\<close> hands out
  for the collection once the texts of the lexical requests before it have been encoded
  in turn. That tokenizer is the one registered for the collection, or a new one on the
  collection's vocabulary path when none is; an encode leaves the tokenizer, as
  \<^verbatim>\<open>generateSparseVector\<close> changed it, registered for the collection.
\<close>

theorem hybridSearch_fused_query:
  assumes "client db" and "searchRequests \<noteq> []"
  shows "\<exists>pf.
       remote_log (snd (snd (hybridSearch E name searchRequests options db w)))
         = remote_log w
           @ [Query name
                \<lparr>qr_prefetch = pf, qr_fusion = ''rrf'',
                 qr_limit = num_or (case options of None \<Rightarrow> None | Some opts \<Rightarrow> ho_limit opts) 10,
                 qr_with_payload = True,
                 qr_filter = (case options of
                                None \<Rightarrow> None
                              | Some opts \<Rightarrow>
                                  if truthy_filter (ho_filterExpr opts) then ho_filterExpr opts else None)\<rparr>]
       \<and> length pf = length searchRequests
       \<and> (\<forall>j<length searchRequests.
            pf_limit (pf ! j) = max (hs_limit (searchRequests ! j) * 3) 100
            \<and> pf_prefetch (pf ! j) = [] \<and> pf_with_payload (pf ! j)
            \<and> (is_dense (searchRequests ! j) \<longrightarrow>
                 pf_using (pf ! j) = ''dense''
                 \<and> pf_query (pf ! j)
                   = DenseQuery (case hs_data (searchRequests ! j) of VectorData v \<Rightarrow> v | _ \<Rightarrow> []))
            \<and> (\<not> is_dense (searchRequests ! j) \<longrightarrow>
                 pf_using (pf ! j) = ''sparse''
                 \<and> pf_query (pf ! j)
                   = SparseQuery
                       (fst (generateSparseVector E (request_text (searchRequests ! j))
                          (fst (tokenizer_at E name
                             (after_texts E name (lexical_texts (take j searchRequests)) db w)))
                          (snd (tokenizer_at E name
                             (after_texts E name (lexical_texts (take j searchRequests)) db w)))))))
       \<and> (\<forall>tk. map_get (tokenizers db0) name = Some tk \<longrightarrow> tokenizer_at E name (db0, w0) = (tk, w0))
       \<and> (map_get (tokenizers db0) name = None \<longrightarrow>
            tokenizer_at E name (db0, w0)
            = new_BM25Tokenizer E
                (if truthy_str (cfg_vocabularyPath (config db0)) then cfg_vocabularyPath (config db0)
                 else Some (getVocabularyPathFromCollection E name)) w0)
       \<and> map_get (tokenizers (fst (after_texts E name [t] db0 w0))) name
         = Some (fst (snd (generateSparseVector E t (fst (tokenizer_at E name (db0, w0)))
                             (snd (tokenizer_at E name (db0, w0))))))"
proof -
  obtain pf db1 w1 where b: "build_prefetch E name searchRequests db w = (pf, db1, w1)"
    by (cases "build_prefetch E name searchRequests db w") auto
  from assms(2) have ne: "length searchRequests \<noteq> 0" by simp
  have init: "ensureInitialized db = Inr ()" using assms(1) by (simp add: ensureInitialized_def)
  have w1: "remote_log w1 = remote_log w"
    using build_prefetch_log[of E name searchRequests db w] b by simp
  let ?req = "queryRequest pf options"
  have "remote_log (snd (snd (hybridSearch E name searchRequests options db w)))
        = remote_log w @ [Query name ?req]"
    using ne init b w1
    by (cases "remote_query E (remote_log w1) name ?req")
       (simp_all add: hybridSearch_def client_query_def)
  then have lg: "remote_log (snd (snd (hybridSearch E name searchRequests options db w)))
         = remote_log w
           @ [Query name
                \<lparr>qr_prefetch = pf, qr_fusion = ''rrf'',
                 qr_limit = num_or (case options of None \<Rightarrow> None | Some opts \<Rightarrow> ho_limit opts) 10,
                 qr_with_payload = True,
                 qr_filter = (case options of
                                None \<Rightarrow> None
                              | Some opts \<Rightarrow>
                                  if truthy_filter (ho_filterExpr opts) then ho_filterExpr opts else None)\<rparr>]"
    by (simp add: queryRequest_def)
  note ex = build_prefetch_exact[OF b]
  have each: "\<forall>j<length searchRequests.
            pf_limit (pf ! j) = max (hs_limit (searchRequests ! j) * 3) 100
            \<and> pf_prefetch (pf ! j) = [] \<and> pf_with_payload (pf ! j)
            \<and> (is_dense (searchRequests ! j) \<longrightarrow>
                 pf_using (pf ! j) = ''dense''
                 \<and> pf_query (pf ! j)
                   = DenseQuery (case hs_data (searchRequests ! j) of VectorData v \<Rightarrow> v | _ \<Rightarrow> []))
            \<and> (\<not> is_dense (searchRequests ! j) \<longrightarrow>
                 pf_using (pf ! j) = ''sparse''
                 \<and> pf_query (pf ! j)
                   = SparseQuery
                       (fst (generateSparseVector E (request_text (searchRequests ! j))
                          (fst (tokenizer_at E name
                             (after_texts E name (lexical_texts (take j searchRequests)) db w)))
                          (snd (tokenizer_at E name
                             (after_texts E name (lexical_texts (take j searchRequests)) db w))))))"
  proof (intro allI impI)
    fix j assume j: "j < length searchRequests"
    let ?st = "after_texts E name (lexical_texts (take j searchRequests)) db w"
    from ex j have p: "pf ! j
        = (if is_dense (searchRequests ! j)
           then \<lparr>pf_prefetch = [],
                 pf_query = DenseQuery (case hs_data (searchRequests ! j) of VectorData v \<Rightarrow> v | _ \<Rightarrow> []),
                 pf_using = ''dense'', pf_limit = max (hs_limit (searchRequests ! j) * 3) 100,
                 pf_with_payload = True\<rparr>
           else \<lparr>pf_prefetch = [],
                 pf_query = SparseQuery
                   (fst (encode_for E name (request_text (searchRequests ! j)) (fst ?st) (snd ?st))),
                 pf_using = ''sparse'', pf_limit = max (hs_limit (searchRequests ! j) * 3) 100,
                 pf_with_payload = True\<rparr>)" by blast
    have v: "fst (encode_for E name (request_text (searchRequests ! j)) (fst ?st) (snd ?st))
        = fst (generateSparseVector E (request_text (searchRequests ! j))
                 (fst (tokenizer_at E name ?st)) (snd (tokenizer_at E name ?st)))"
      using encode_for_vector[of E name "request_text (searchRequests ! j)" "fst ?st" "snd ?st"] by simp
    show "pf_limit (pf ! j) = max (hs_limit (searchRequests ! j) * 3) 100
            \<and> pf_prefetch (pf ! j) = [] \<and> pf_with_payload (pf ! j)
            \<and> (is_dense (searchRequests ! j) \<longrightarrow>
                 pf_using (pf ! j) = ''dense''
                 \<and> pf_query (pf ! j)
                   = DenseQuery (case hs_data (searchRequests ! j) of VectorData v \<Rightarrow> v | _ \<Rightarrow> []))
            \<and> (\<not> is_dense (searchRequests ! j) \<longrightarrow>
                 pf_using (pf ! j) = ''sparse''
                 \<and> pf_query (pf ! j)
                   = SparseQuery
                       (fst (generateSparseVector E (request_text (searchRequests ! j))
                          (fst (tokenizer_at E name ?st)) (snd (tokenizer_at E name ?st)))))"
      by (cases "is_dense (searchRequests ! j)") (simp_all add: p v)
  qed
  have r1: "\<forall>tk. map_get (tokenizers db0) name = Some tk \<longrightarrow> tokenizer_at E name (db0, w0) = (tk, w0)"
    by (simp add: tokenizer_at_def getTokenizer_def)
  have r2: "map_get (tokenizers db0) name = None \<longrightarrow>
            tokenizer_at E name (db0, w0)
            = new_BM25Tokenizer E
                (if truthy_str (cfg_vocabularyPath (config db0)) then cfg_vocabularyPath (config db0)
                 else Some (getVocabularyPathFromCollection E name)) w0"
    by (simp add: tokenizer_at_def getTokenizer_def split_beta Let_def)
  have r3: "map_get (tokenizers (fst (after_texts E name [t] db0 w0))) name
         = Some (fst (snd (generateSparseVector E t (fst (tokenizer_at E name (db0, w0)))
                             (snd (tokenizer_at E name (db0, w0))))))"
    by (simp add: encode_for_def tokenizer_at_def split_beta Let_def map_get_map_set)
  from ex have len: "length pf = length searchRequests" by simp
  show ?thesis
    apply (rule exI[of _ pf])
    apply (intro conjI)
         apply (rule lg)
        apply (rule len)
       apply (rule each)
      apply (rule r1)
     apply (rule r2)
    apply (rule r3)
    done
qed

text \<open>
  At a concrete input: the registry holds a tokenizer with \<^verbatim>\<open>aa\<close> at 0 and \<^verbatim>\<open>bb\<close> at 1.
  The first lexical request gets the indices 1 and 2, the second one, on \<^verbatim>\<open>cc\<close> alone,
  gets the index 2 that the first one assigned.
\<close>

theorem hybridSearch_fused_query_witness:
  "client registered_db
   \<and> threaded_requests \<noteq> []
   \<and> remote_log (snd (snd (hybridSearch query_env ''hybrid_ab12'' threaded_requests
        (Some \<lparr>ho_limit = None, ho_filterExpr = Some (FilterObject ''must'')\<rparr>)
        registered_db world0)))
     = [Query ''hybrid_ab12''
          \<lparr>qr_prefetch = threaded_prefetch, qr_fusion = ''rrf'', qr_limit = 10, qr_with_payload = True,
           qr_filter = Some (FilterObject ''must'')\<rparr>]"
proof -
  let ?E = query_env
  let ?n = "''hybrid_ab12''"
  let ?o = "Some \<lparr>ho_limit = None, ho_filterExpr = Some (FilterObject ''must'')\<rparr>"
  have c: "client registered_db"
    by (simp add: registered_db_def new_QdrantVectorDatabase_def initialize_def)
  have n: "threaded_requests \<noteq> []" "length threaded_requests = 3"
    by (simp_all add: threaded_requests_def)
  have d: "is_dense (threaded_requests ! 0)" "\<not> is_dense (threaded_requests ! 1)"
    "\<not> is_dense (threaded_requests ! 2)"
    by (simp_all add: threaded_requests_def is_dense_def)
  have l: "hs_limit (threaded_requests ! 0) = 5" "hs_limit (threaded_requests ! 1) = 50"
    "hs_limit (threaded_requests ! 2) = 10"
    "hs_data (threaded_requests ! 0) = VectorData [1, 2, 3]"
    by (simp_all add: threaded_requests_def)
  have q1: "fst (generateSparseVector ?E (request_text (threaded_requests ! 1))
              (fst (tokenizer_at ?E ?n (after_texts ?E ?n (lexical_texts (take 1 threaded_requests)) registered_db world0)))
              (snd (tokenizer_at ?E ?n (after_texts ?E ?n (lexical_texts (take 1 threaded_requests)) registered_db world0))))
        = \<lparr>indices = [1, 2], values = [2, 1]\<rparr>"
    by (simp add: thread_eval)
  have q2: "fst (generateSparseVector ?E (request_text (threaded_requests ! 2))
              (fst (tokenizer_at ?E ?n (after_texts ?E ?n (lexical_texts (take 2 threaded_requests)) registered_db world0)))
              (snd (tokenizer_at ?E ?n (after_texts ?E ?n (lexical_texts (take 2 threaded_requests)) registered_db world0))))
        = \<lparr>indices = [2], values = [1]\<rparr>"
    by (simp add: thread_eval numeral_2_eq_2)
  note inst = hybridSearch_fused_query[OF c n(1), where E = ?E and name = ?n and options = ?o
      and w = world0 and ?db0.0 = registered_db and ?w0.0 = world0 and t = "[]"]
  from inst obtain pf where pf:
    "remote_log (snd (snd (hybridSearch ?E ?n threaded_requests ?o registered_db world0)))
       = remote_log world0
         @ [Query ?n \<lparr>qr_prefetch = pf, qr_fusion = ''rrf'', qr_limit = 10, qr_with_payload = True,
                      qr_filter = Some (FilterObject ''must'')\<rparr>]"
    "length pf = length threaded_requests"
    "\<forall>j<length threaded_requests.
            pf_limit (pf ! j) = max (hs_limit (threaded_requests ! j) * 3) 100
            \<and> pf_prefetch (pf ! j) = [] \<and> pf_with_payload (pf ! j)
            \<and> (is_dense (threaded_requests ! j) \<longrightarrow>
                 pf_using (pf ! j) = ''dense''
                 \<and> pf_query (pf ! j)
                   = DenseQuery (case hs_data (threaded_requests ! j) of VectorData v \<Rightarrow> v | _ \<Rightarrow> []))
            \<and> (\<not> is_dense (threaded_requests ! j) \<longrightarrow>
                 pf_using (pf ! j) = ''sparse''
                 \<and> pf_query (pf ! j)
                   = SparseQuery
                       (fst (generateSparseVector ?E (request_text (threaded_requests ! j))
                          (fst (tokenizer_at ?E ?n
                             (after_texts ?E ?n (lexical_texts (take j threaded_requests)) registered_db world0)))
                          (snd (tokenizer_at ?E ?n
                             (after_texts ?E ?n (lexical_texts (take j threaded_requests)) registered_db world0))))))"
    by (elim exE conjE) (simp add: num_or_def)
  have e0: "pf ! 0 = threaded_prefetch ! 0"
    using pf(3)[rule_format, of 0] n(2) d(1) l by (simp add: threaded_prefetch_def)
  have e1: "pf ! 1 = threaded_prefetch ! 1"
    using pf(3)[rule_format, of 1] n(2) d(2) l q1 by (simp add: threaded_prefetch_def)
  have e2: "pf ! 2 = threaded_prefetch ! 2"
    using pf(3)[rule_format, of 2] n(2) d(3) l q2 by (simp add: threaded_prefetch_def)
  have "pf = threaded_prefetch"
  proof (rule nth_equalityI)
    show "length pf = length threaded_prefetch" using pf(2) n(2) by (simp add: threaded_prefetch_def)
    fix i assume "i < length pf"
    with pf(2) n(2) have "i = 0 \<or> i = 1 \<or> i = 2" by auto
    with e0 e1 e2 show "pf ! i = threaded_prefetch ! i" by auto
  qed
  with pf(1) c n(1) show ?thesis by (simp add: world0_def)
qed

end
